theory Spec2Isabelle
  imports Complex_Main "HOL-Library.Char_ord"
begin

section \<open>JavaScript strings\<close>

text \<open>
  A JavaScript string is modelled as a \<^typ>\<open>string\<close>, one \<^typ>\<open>char\<close> per code unit, so
  the texts of the model are those whose code units are below 256. Every literal of the
  analysed functions (vocabulary, templates, separators) is ASCII.
\<close>

text \<open>\<^verbatim>\<open>s.split(sep)\<close> for a separator of one character: the text is cut at every
  occurrence of the separator, empty pieces are kept, and the empty string gives one
  empty piece. \<open>cur\<close> is the piece being read.\<close>

fun splitFrom :: "char \<Rightarrow> string \<Rightarrow> string \<Rightarrow> string list" where
  "splitFrom sep cur [] = [cur]"
| "splitFrom sep cur (c # cs) =
     (if c = sep then cur # splitFrom sep [] cs else splitFrom sep (cur @ [c]) cs)"

definition split :: "string \<Rightarrow> char \<Rightarrow> string list" where
  "split s sep = splitFrom sep [] s"

text \<open>\<^verbatim>\<open>toLowerCase\<close> is modelled on the ASCII letters and keeps every other character.
  The code only searches the lowered strings for the ASCII words \<^verbatim>\<open>senior\<close>,
  \<^verbatim>\<open>intern\<close> and \<^verbatim>\<open>java\<close>.\<close>

definition inRange :: "char \<Rightarrow> char \<Rightarrow> char \<Rightarrow> bool" where
  "inRange lo hi c = (lo \<le> c \<and> c \<le> hi)"

definition lowerChar :: "char \<Rightarrow> char" where
  "lowerChar c = (if inRange CHR ''A'' CHR ''Z'' c then char_of (of_char c + (32 :: nat)) else c)"

definition toLowerCase :: "string \<Rightarrow> string" where
  "toLowerCase s = map lowerChar s"

text \<open>\<^verbatim>\<open>s.includes(sub)\<close>: \<open>sub\<close> occurs in \<open>s\<close> at some index.\<close>

fun str_includes :: "string \<Rightarrow> string \<Rightarrow> bool" where
  "str_includes [] sub = (sub = [])"
| "str_includes (c # cs) sub = (take (length sub) (c # cs) = sub \<or> str_includes cs sub)"

text \<open>\<^verbatim>\<open>String(n)\<close> for a natural number: its decimal digits.\<close>

definition digitChar :: "nat \<Rightarrow> char" where
  "digitChar d = ''0123456789'' ! (d mod 10)"

fun natToString :: "nat \<Rightarrow> string" where
  "natToString n =
     (if n < 10 then [digitChar n] else natToString (n div 10) @ [digitChar (n mod 10)])"

declare natToString.simps [simp del]

text \<open>\<^verbatim>\<open>String(k)\<close> for an integer (in plain decimal digits, as the code prints every
  integer below \<open>10\<^sup>2\<^sup>1\<close>).\<close>

definition intToString :: "int \<Rightarrow> string" where
  "intToString k = (if k < 0 then CHR ''-'' # natToString (nat (- k)) else natToString (nat k))"

text \<open>\<^verbatim>\<open>s.padStart(n, '0')\<close>.\<close>

definition padStart :: "string \<Rightarrow> nat \<Rightarrow> char \<Rightarrow> string" where
  "padStart s n c = replicate (n - length s) c @ s"

section \<open>The regular expressions of the analysers\<close>

text \<open>
  The analysers count matches of regular expressions of one shape: ASCII literals written
  in lower case, \<^verbatim>\<open>\b\<close>, \<^verbatim>\<open>\d+\<close>, \<^verbatim>\<open>\s*\<close>, sequence and alternation, under the
  flags \<^verbatim>\<open>gi\<close>. Without the \<^verbatim>\<open>u\<close> flag a word character is one of
  \<^verbatim>\<open>[A-Za-z0-9_]\<close>, and the case-insensitive comparison never identifies a non-ASCII
  character with an ASCII one. The model lowers the ASCII letters of the text once and
  compares the literals as they are written; lowering changes neither the word
  characters, the digits nor the white space.
\<close>

definition isWordChar :: "char \<Rightarrow> bool" where
  "isWordChar c =
     (inRange CHR ''a'' CHR ''z'' c \<or> inRange CHR ''A'' CHR ''Z'' c \<or> inRange CHR ''0'' CHR ''9'' c
      \<or> c = CHR ''_'')"

definition isDigit :: "char \<Rightarrow> bool" where
  "isDigit c = inRange CHR ''0'' CHR ''9'' c"

text \<open>\<^verbatim>\<open>\s\<close> on code units below 256: tab, line feed, vertical tab, form feed,
  carriage return, space and the no-break space.\<close>

definition isSpace :: "char \<Rightarrow> bool" where
  "isSpace c = (inRange (CHR 0x09) (CHR 0x0D) c \<or> c = CHR 0x20 \<or> c = CHR 0xA0)"

text \<open>A position of the matcher in the text: whether the character before it is a word
  character, and the characters from it on.\<close>

type_synonym position = "bool \<times> string"

definition startsWithWordChar :: "string \<Rightarrow> bool" where
  "startsWithWordChar rest = (case rest of [] \<Rightarrow> False | c # _ \<Rightarrow> isWordChar c)"

text \<open>\<^verbatim>\<open>\b\<close>: exactly one of the characters before and at the position is a word
  character (a missing character is not).\<close>

definition wordBoundary :: "position \<Rightarrow> bool" where
  "wordBoundary p = (fst p \<noteq> startsWithWordChar (snd p))"

text \<open>A literal: the position after it, if the text goes on with it.\<close>

fun matchLit :: "string \<Rightarrow> position \<Rightarrow> position option" where
  "matchLit [] p = Some p"
| "matchLit (a # w) (prev, []) = None"
| "matchLit (a # w) (prev, c # cs) = (if c = a then matchLit w (isWordChar c, cs) else None)"

text \<open>A greedy run of one or more characters of a class: the positions after it, the
  longest run first.\<close>

fun runEnds :: "(char \<Rightarrow> bool) \<Rightarrow> position \<Rightarrow> position list" where
  "runEnds cls (prev, []) = []"
| "runEnds cls (prev, c # cs) =
     (if cls c then runEnds cls (isWordChar c, cs) @ [(isWordChar c, cs)] else [])"

datatype regex =
    Lit string
  | WordB
  | DigitPlus
  | SpaceStar
  | Seq regex regex
  | Alt regex regex
  | NoMatch

text \<open>
  The backtracking matcher: \<open>ends r p\<close> lists, in the order in which the matcher tries
  them, the positions at which a match of \<open>r\<close> starting at \<open>p\<close> can end. An alternation
  tries its left branch first; the greedy \<^verbatim>\<open>\d+\<close> and \<^verbatim>\<open>\s*\<close> try the longest run
  first and give characters back one at a time.
\<close>

fun ends :: "regex \<Rightarrow> position \<Rightarrow> position list" where
  "ends (Lit w) p = (case matchLit w p of None \<Rightarrow> [] | Some q \<Rightarrow> [q])"
| "ends WordB p = (if wordBoundary p then [p] else [])"
| "ends DigitPlus p = runEnds isDigit p"
| "ends SpaceStar p = runEnds isSpace p @ [p]"
| "ends (Seq a b) p = concat (map (ends b) (ends a p))"
| "ends (Alt a b) p = ends a p @ ends b p"
| "ends NoMatch p = []"

text \<open>One attempt at a position: the end of the first successful path.\<close>

definition matchAt :: "regex \<Rightarrow> position \<Rightarrow> position option" where
  "matchAt r p = (case ends r p of [] \<Rightarrow> None | q # _ \<Rightarrow> Some q)"

text \<open>
  The number of matches of a global regular expression from a position on: a failed
  attempt moves on by one character; a match is counted and the next attempt starts
  where it ended, or one character further if the match was empty; the last attempt is
  at the end of the text.
\<close>

function matchCountFrom :: "regex \<Rightarrow> position \<Rightarrow> nat" where
  "matchCountFrom r (prev, []) = (case matchAt r (prev, []) of None \<Rightarrow> 0 | Some q \<Rightarrow> 1)"
| "matchCountFrom r (prev, c # cs) =
     (case matchAt r (prev, c # cs) of
        None \<Rightarrow> matchCountFrom r (isWordChar c, cs)
      | Some q \<Rightarrow>
          1 + (if length (snd q) < length (c # cs) then matchCountFrom r q
               else matchCountFrom r (isWordChar c, cs)))"
  by pat_completeness auto
termination
  by (relation "measure (\<lambda>(r, p). length (snd p))") auto

text \<open>\<^verbatim>\<open>(s.match(r) || []).length\<close> for a regular expression with the flags \<^verbatim>\<open>gi\<close>.\<close>

definition matchCount :: "string \<Rightarrow> regex \<Rightarrow> nat" where
  "matchCount s r = matchCountFrom r (False, map lowerChar s)"

text \<open>\<^verbatim>\<open>(w1|w2|...)\<close>\<close>

definition anyOf :: "string list \<Rightarrow> regex" where
  "anyOf ws = foldr (\<lambda>w r. Alt (Lit w) r) ws NoMatch"

text \<open>\<^verbatim>\<open>/\b(w1|w2|...)\b/gi\<close>\<close>

definition wordsRegex :: "string list \<Rightarrow> regex" where
  "wordsRegex ws = Seq WordB (Seq (anyOf ws) WordB)"

section \<open>The vocabularies\<close>

text \<open>The regular expressions of \<^verbatim>\<open>analyzeRealSpeech\<close> (api/analyze.js, lines 275 to 283);
  \<^verbatim>\<open>analyzeRealTranscription\<close> (server.js, lines 174 to 182) has the same five literals.\<close>

definition technicalTermsRegex :: regex where
  "technicalTermsRegex = wordsRegex
     [''javascript'', ''react'', ''node'', ''python'', ''java'', ''database'', ''api'',
      ''system'', ''software'', ''code'', ''programming'', ''development'', ''framework'',
      ''library'', ''algorithm'', ''data'', ''server'', ''frontend'', ''backend'',
      ''fullstack'', ''git'', ''docker'', ''aws'', ''cloud'', ''microservices'', ''testing'',
      ''debugging'', ''deployment'', ''scalability'', ''performance'', ''security'',
      ''architecture'', ''html'', ''css'', ''typescript'', ''angular'', ''vue'', ''spring'',
      ''hibernate'', ''mysql'', ''postgresql'', ''mongodb'', ''redis'', ''kubernetes'',
      ''devops'', ''ci'', ''cd'', ''agile'', ''scrum'']"

definition confidenceWordsRegex :: regex where
  "confidenceWordsRegex = wordsRegex
     [''successfully'', ''achieved'', ''led'', ''implemented'', ''improved'', ''optimized'',
      ''designed'', ''developed'', ''managed'', ''created'', ''built'', ''delivered'',
      ''solved'', ''experience'', ''expertise'', ''proficient'', ''skilled'',
      ''accomplished'', ''responsible'', ''contributed'', ''collaborated'', ''completed'',
      ''established'', ''enhanced'', ''streamlined'', ''automated'', ''integrated'',
      ''architected'']"

definition fillerWordsRegex :: regex where
  "fillerWordsRegex = wordsRegex
     [''um'', ''uh'', ''like'', ''you know'', ''actually'', ''basically'', ''sort of'',
      ''kind of'', ''well'', ''so'', ''right'', ''okay'', ''yeah'', ''hmm'', ''er'', ''ah'']"

text \<open>\<^verbatim>\<open>/\b(\d+%|\d+\s*(percent|times|...))\b/gi\<close>\<close>

definition metricUnits :: "string list" where
  "metricUnits =
     [''percent'', ''times'', ''years'', ''months'', ''weeks'', ''days'', ''users'',
      ''customers'', ''projects'', ''team'', ''members'', ''million'', ''thousand'',
      ''hours'', ''dollars'', ''revenue'', ''growth'', ''reduction'', ''increase'',
      ''decrease'', ''improvement'']"

definition specificMetricsRegex :: regex where
  "specificMetricsRegex =
     Seq WordB (Seq (Alt (Seq DigitPlus (Lit ''%''))
                         (Seq DigitPlus (Seq SpaceStar (anyOf metricUnits)))) WordB)"

definition questionWordsRegex :: regex where
  "questionWordsRegex = wordsRegex
     [''what'', ''how'', ''why'', ''when'', ''where'', ''which'', ''who'', ''could you'',
      ''can you'', ''would you'', ''do you'', ''have you'', ''will you'']"

text \<open>The three shorter regular expressions of \<^verbatim>\<open>analyzeTranscription\<close> (server.js, lines 995
  to 999).\<close>

definition technicalTermsRegex3 :: regex where
  "technicalTermsRegex3 = wordsRegex
     [''javascript'', ''react'', ''node'', ''python'', ''java'', ''database'', ''api'',
      ''system'', ''software'', ''code'', ''programming'', ''development'', ''framework'',
      ''library'', ''algorithm'', ''data'', ''server'', ''frontend'', ''backend'',
      ''fullstack'', ''git'', ''docker'', ''aws'', ''cloud'', ''testing'', ''debugging'',
      ''deployment'']"

definition confidenceWordsRegex3 :: regex where
  "confidenceWordsRegex3 = wordsRegex
     [''successfully'', ''achieved'', ''implemented'', ''developed'', ''managed'',
      ''created'', ''built'', ''delivered'', ''solved'', ''experience'', ''skilled'',
      ''accomplished'', ''responsible'', ''led'', ''improved'', ''designed'']"

definition fillerWordsRegex3 :: regex where
  "fillerWordsRegex3 = wordsRegex
     [''um'', ''uh'', ''like'', ''you know'', ''actually'', ''basically'', ''sort of'',
      ''kind of'', ''well'', ''so'', ''right'', ''okay'']"

section \<open>The data model\<close>

text \<open>
  A number of the code is modelled by its real value. Every rating the analysers compute is
  a multiple of one half below 13, where the arithmetic of doubles is exact. A comparison
  of a count with a count divided by 15, 20 or 25 is decided as in exact arithmetic: the
  quotient is an integer, and then exact, or at least one twenty-fifth away from every
  integer, and a string has fewer than \<open>2\<^sup>5\<^sup>3\<close> code units. The filler percentage and
  the minutes of a timestamp are rounded as the code rounds them (see the doubles below).

  A segment of a transcript: only \<^verbatim>\<open>start\<close> and \<^verbatim>\<open>text\<close> are read; \<open>None\<close> is the
  value \<^verbatim>\<open>undefined\<close> of a missing property.
\<close>

record segment =
  start :: "real option"
  seg_end :: "real option"
  seg_text :: string

text \<open>The object returned by the transcription step: \<^verbatim>\<open>{text, segments, duration}\<close>.\<close>

record transcription =
  transcript_text :: "string option"
  segments :: "segment list option"
  duration :: real

record mistake =
  timestamp :: string
  mistake_text :: string

record analysis =
  rating :: real
  mistakes :: "mistake list"
  tips :: "string list"
  summary :: string

text \<open>Reading a property of \<^verbatim>\<open>undefined\<close> throws a \<^verbatim>\<open>TypeError\<close>.\<close>

datatype error = TypeError

text \<open>\<^verbatim>\<open>xs[i]\<close>: \<^verbatim>\<open>undefined\<close> out of range.\<close>

definition index :: "'a list \<Rightarrow> nat \<Rightarrow> 'a option" where
  "index xs i = (if i < length xs then Some (xs ! i) else None)"

text \<open>\<^verbatim>\<open>Math.round(x)\<close>: the nearest integer, a tie going up.\<close>

definition mathRound :: "real \<Rightarrow> int" where
  "mathRound x = \<lfloor>x + 1 / 2\<rfloor>"

text \<open>\<^verbatim>\<open>x % y\<close>: the remainder of the division truncated towards zero.\<close>

definition jsRemainder :: "real \<Rightarrow> real \<Rightarrow> real" where
  "jsRemainder x y = x - y * of_int (if x / y < 0 then \<lceil>x / y\<rceil> else \<lfloor>x / y\<rfloor>)"

subsection \<open>Doubles\<close>

text \<open>
  A number of the code is a double. The model keeps its value as a real number and rounds
  where the code's arithmetic rounds: \<open>toDouble x\<close> is the double nearest to \<open>x\<close>, a tie
  going to the even significand. \<open>binade x\<close> is the exponent \<open>e\<close> with
  \<open>2\<^sup>e \<le> x < 2\<^sup>e\<^sup>+\<^sup>1\<close> for a positive \<open>x\<close>; the doubles of that binade are spaced
  \<open>2\<^sup>e\<^sup>-\<^sup>5\<^sup>2\<close> apart, and below \<open>2\<^sup>-\<^sup>1\<^sup>0\<^sup>2\<^sup>2\<close> they keep the spacing of the subnormal numbers.
  No value of the analysers reaches \<open>2\<^sup>1\<^sup>0\<^sup>2\<^sup>4\<close>, so the overflow to infinity is not modelled.
\<close>

function binade :: "real \<Rightarrow> int" where
  "binade x =
     (if 2 \<le> x then binade (x / 2) + 1
      else if 0 < x \<and> x < 1 then binade (x * 2) - 1
      else 0)"
  by pat_completeness auto
termination
proof (relation "measure (\<lambda>x. if 1 \<le> x then nat \<lceil>x\<rceil> else nat \<lceil>1 / x\<rceil> + 3)")
  show "wf (measure (\<lambda>x. if 1 \<le> x then nat \<lceil>x\<rceil> else nat \<lceil>1 / x\<rceil> + 3))"
    by simp
next
  fix x :: real
  assume "2 \<le> x"
  then have "\<lceil>x / 2\<rceil> \<le> \<lceil>x - 1\<rceil>"
    by (intro ceiling_mono) simp
  also have "\<dots> < \<lceil>x\<rceil>" by simp
  finally have "\<lceil>x / 2\<rceil> < \<lceil>x\<rceil>" .
  moreover have "0 < \<lceil>x\<rceil>" using \<open>2 \<le> x\<close> by simp
  ultimately show "(x / 2, x) \<in> measure (\<lambda>x. if 1 \<le> x then nat \<lceil>x\<rceil> else nat \<lceil>1 / x\<rceil> + 3)"
    using \<open>2 \<le> x\<close> by auto
next
  fix x :: real
  assume a: "\<not> 2 \<le> x" "0 < x \<and> x < 1"
  show "(x * 2, x) \<in> measure (\<lambda>x. if 1 \<le> x then nat \<lceil>x\<rceil> else nat \<lceil>1 / x\<rceil> + 3)"
  proof (cases "1 \<le> x * 2")
    case True
    have "x * 2 \<le> 2" using a by simp
    then have "\<lceil>x * 2\<rceil> \<le> 2" by (simp add: ceiling_le_iff)
    then have "nat \<lceil>x * 2\<rceil> < nat \<lceil>1 / x\<rceil> + 3" by linarith
    with True a show ?thesis by simp
  next
    case False
    then have "2 < 1 / x" using a by (simp add: field_simps)
    have "\<lceil>1 / (x * 2)\<rceil> \<le> \<lceil>1 / x - 1\<rceil>"
      using \<open>2 < 1 / x\<close> a by (intro ceiling_mono) (simp add: field_simps)
    also have "\<dots> < \<lceil>1 / x\<rceil>" by simp
    finally have "\<lceil>1 / (x * 2)\<rceil> < \<lceil>1 / x\<rceil>" .
    moreover have "0 < \<lceil>1 / x\<rceil>" using a by simp
    ultimately show ?thesis using False a by auto
  qed
qed

declare binade.simps [simp del]

text \<open>The nearest integer, a tie going to the even one.\<close>

definition roundHalfEven :: "real \<Rightarrow> int" where
  "roundHalfEven y =
     (let f = \<lfloor>y\<rfloor>; r = y - of_int f
      in if r < 1 / 2 then f else if 1 / 2 < r then f + 1 else if even f then f else f + 1)"

definition ulpOf :: "real \<Rightarrow> real" where
  "ulpOf x = 2 powi (max (binade \<bar>x\<bar>) (- 1022) - 52)"

definition toDouble :: "real \<Rightarrow> real" where
  "toDouble x = of_int (roundHalfEven (x / ulpOf x)) * ulpOf x"

text \<open>
  \<^verbatim>\<open>String(v)\<close> for a double \<open>v\<close> with an integer value. Below \<open>2\<^sup>5\<^sup>3\<close> every
  integer is a double of its own and the digits are those of the integer. From there on
  the code prints the shortest digits \<open>s\<close>, \<open>k\<close> of them, such that \<open>s\<close> times a power
  of ten rounds to \<open>v\<close> (among two such \<open>s\<close> the one nearer to \<open>v\<close>, then the even one),
  followed by zeros up to 21 digits and in the exponent form beyond.
  \<open>candidatesFor v n k\<close> are the \<open>s\<close> of \<open>k\<close> digits for a \<open>v\<close> of \<open>n\<close> digits.
\<close>

definition candidatesFor :: "real \<Rightarrow> nat \<Rightarrow> nat \<Rightarrow> nat list" where
  "candidatesFor v n k =
     (let scale = 10 ^ (n - k); lo = nat \<lfloor>v / real scale\<rfloor>
      in filter (\<lambda>s. 10 ^ (k - 1) \<le> s \<and> s < 10 ^ k \<and> toDouble (real (s * scale)) = v)
           [lo, lo + 1])"

definition closestTo :: "real \<Rightarrow> nat \<Rightarrow> nat \<Rightarrow> nat \<Rightarrow> nat" where
  "closestTo v scale a b =
     (let da = \<bar>v - real (a * scale)\<bar>; db = \<bar>real (b * scale) - v\<bar>
      in if da < db then a else if db < da then b else if even a then a else b)"

fun shortestDigits :: "real \<Rightarrow> nat \<Rightarrow> nat \<Rightarrow> nat \<Rightarrow> nat \<times> nat" where
  "shortestDigits v n k 0 = (nat \<lfloor>v\<rfloor>, n)"
| "shortestDigits v n k (Suc fuel) =
     (case candidatesFor v n k of
        [] \<Rightarrow> shortestDigits v n (k + 1) fuel
      | [s] \<Rightarrow> (s, k)
      | a # b # _ \<Rightarrow> (closestTo v (10 ^ (n - k)) a b, k))"

definition largeToString :: "real \<Rightarrow> string" where
  "largeToString v =
     (let n = length (natToString (nat \<lfloor>v\<rfloor>));
          (s, k, e) = (if toDouble (10 ^ n) = v then (1, 1, n + 1)
                       else (let (s, k) = shortestDigits v n 1 n in (s, k, n)));
          digits = natToString s
      in if e \<le> 21 then digits @ replicate (e - k) CHR ''0''
         else (if k = 1 then digits else hd digits # CHR ''.'' # tl digits)
              @ ''e+'' @ natToString (e - 1))"

definition numberToString :: "real \<Rightarrow> string" where
  "numberToString v =
     (let a = \<bar>v\<bar>;
          digits = (if a < 2 ^ 53 then natToString (nat \<lfloor>a\<rfloor>) else largeToString a)
      in if v < 0 then CHR ''-'' # digits else digits)"

text \<open>\<^verbatim>\<open>String(x)\<close> for the values a rating takes: an integer, or an integer and one half.\<close>

definition ratingToString :: "real \<Rightarrow> string" where
  "ratingToString x = (if x = of_int \<lfloor>x\<rfloor> then intToString \<lfloor>x\<rfloor> else intToString \<lfloor>x\<rfloor> @ ''.5'')"

section \<open>api/analyze.js: analyzeRealSpeech\<close>

text \<open>Lines 514 to 516, for a segment start that is a number: the quotient is rounded to a
  double, the remainder of doubles is exact.\<close>

definition formatStart :: "real \<Rightarrow> string" where
  "formatStart st =
     (let minutes = \<lfloor>toDouble (st / 60)\<rfloor>;
          seconds = \<lfloor>jsRemainder st 60\<rfloor>
      in numberToString (of_int minutes) @ '':''
         @ padStart (numberToString (of_int seconds)) 2 CHR ''0'')"

text \<open>Lines 508 to 517; both numbers are \<^verbatim>\<open>NaN\<close> when the start is \<^verbatim>\<open>undefined\<close>.\<close>

definition findFillerTimestamp :: "segment list option \<Rightarrow> nat \<Rightarrow> error + string" where
  "findFillerTimestamp segs fillerCount =
     (case segs of
        None \<Rightarrow> Inr ''1:15''
      | Some sgs \<Rightarrow>
          if length sgs = 0 then Inr ''1:15''
          else
            let midPoint = length sgs div 2 in
            (case index sgs midPoint of
               None \<Rightarrow> Inl TypeError
             | Some sg \<Rightarrow>
                 (case start sg of
                    None \<Rightarrow> Inr ''NaN:NaN''
                  | Some st \<Rightarrow> Inr (formatStart st))))"

text \<open>Lines 240 to 255.\<close>

definition noSpeechResult :: analysis where
  "noSpeechResult =
     \<lparr>rating = 0,
      mistakes = [\<lparr>timestamp = ''0:05'',
                   mistake_text = ''No meaningful speech detected - please speak clearly into the microphone''\<rparr>],
      tips = [''Ensure you are actually speaking during the recording'',
              ''Check microphone permissions and audio levels'',
              ''Speak clearly and at normal volume'',
              ''Record in a quiet environment''],
      summary = ''No speech content detected for analysis. Please record again with clear audio.''\<rparr>"

text \<open>Lines 257 to 272.\<close>

definition tooBriefResult :: "nat \<Rightarrow> analysis" where
  "tooBriefResult wordCount =
     \<lparr>rating = 2,
      mistakes = [\<lparr>timestamp = ''0:10'',
                   mistake_text = ''Response too brief - provide more detailed answers with specific examples''\<rparr>],
      tips = [''Elaborate on your experience with concrete examples'',
              ''Use the STAR method (Situation, Task, Action, Result)'',
              ''Aim for 1-2 minutes per response'',
              ''Include specific technologies and metrics''],
      summary = ''Brief response detected ('' @ natToString wordCount
                @ '' words). Expand your answers for better evaluation.''\<rparr>"

text \<open>Lines 295 to 314: the rating from the counts, the field and the text.\<close>

definition computeRating ::
  "nat \<Rightarrow> nat \<Rightarrow> nat \<Rightarrow> nat \<Rightarrow> nat \<Rightarrow> nat \<Rightarrow> string \<Rightarrow> string \<Rightarrow> real" where
  "computeRating wordCount technicalTerms confidenceWords fillerWords specificMetrics
       questionWords field text =
     (let rating = 4;
          rating = (if wordCount > 50 then rating + 1 else rating);
          rating = (if wordCount > 100 then rating + 0.5 else rating);
          rating = (if technicalTerms > 2 then rating + 1 else rating);
          rating = (if technicalTerms > 5 then rating + 0.5 else rating);
          rating = (if confidenceWords > 2 then rating + 1 else rating);
          rating = (if confidenceWords > 4 then rating + 0.5 else rating);
          rating = (if specificMetrics > 0 then rating + 1 else rating);
          rating = (if specificMetrics > 2 then rating + 0.5 else rating);
          rating = (if real fillerWords < real wordCount / 20 then rating + 0.5 else rating);
          rating = (if questionWords > 0 then rating + 0.5 else rating);
          fieldLower = toLowerCase field;
          rating = (if str_includes fieldLower ''senior'' \<and> technicalTerms > 4
                    then rating + 0.5 else rating);
          rating = (if str_includes fieldLower ''intern'' \<and> confidenceWords > 1
                    then rating + 0.5 else rating);
          rating = (if str_includes fieldLower ''java'' \<and> str_includes (toLowerCase text) ''java''
                    then rating + 0.5 else rating)
      in min 9 (max 1 (real_of_int (mathRound (rating * 2)) / 2)))"

text \<open>Lines 317 to 353: the mistakes, in the order of the pushes. \<open>fillerTimestamp\<close> is
  the value of the call of \<^verbatim>\<open>findFillerTimestamp\<close> in line 322. The quotient and the
  product of the filler percentage are rounded to doubles; \<^verbatim>\<open>Math.round\<close> is exact.\<close>

definition collectMistakes ::
  "nat \<Rightarrow> nat \<Rightarrow> nat \<Rightarrow> nat \<Rightarrow> nat \<Rightarrow> string \<Rightarrow> string \<Rightarrow> mistake list" where
  "collectMistakes wordCount technicalTerms confidenceWords fillerWords specificMetrics
       field fillerTimestamp =
     (let mistakes = [];
          mistakes =
            (if real fillerWords > real wordCount / 15
             then let fillerPercent =
                        mathRound (toDouble (toDouble (real fillerWords / real wordCount) * 100)) in
                  mistakes @ [\<lparr>timestamp = fillerTimestamp,
                                mistake_text = ''Reduce filler words (''
                                  @ numberToString (of_int fillerPercent)
                                  @ ''% of speech) - practice speaking more deliberately''\<rparr>]
             else mistakes);
          mistakes =
            (if specificMetrics = 0 \<and> wordCount > 30
             then mistakes @ [\<lparr>timestamp = ''1:30'',
                                mistake_text = ''Include specific metrics and quantifiable achievements in your examples''\<rparr>]
             else mistakes);
          mistakes =
            (if technicalTerms < 2 \<and> wordCount > 30
             then mistakes @ [\<lparr>timestamp = ''2:00'',
                                mistake_text = ''Use more '' @ field
                                  @ ''-specific technical terminology to demonstrate expertise''\<rparr>]
             else mistakes);
          mistakes =
            (if confidenceWords < 2 \<and> wordCount > 40
             then mistakes @ [\<lparr>timestamp = ''1:45'',
                                mistake_text = ''Use more confident, achievement-oriented language when describing your experience''\<rparr>]
             else mistakes);
          mistakes =
            (if wordCount < 40
             then mistakes @ [\<lparr>timestamp = ''0:30'',
                                mistake_text = ''Provide more comprehensive responses with detailed examples and context''\<rparr>]
             else mistakes)
      in mistakes)"

text \<open>Lines 356 to 362.\<close>

definition speechTips :: "nat \<Rightarrow> nat \<Rightarrow> nat \<Rightarrow> nat \<Rightarrow> nat \<Rightarrow> string \<Rightarrow> string list" where
  "speechTips wordCount technicalTerms confidenceWords fillerWords specificMetrics field =
     [''Real speech analysis: '' @ natToString wordCount @ '' words, ''
        @ natToString technicalTerms @ '' technical terms, ''
        @ natToString confidenceWords @ '' confidence indicators'',
      (if technicalTerms > 3 then ''Excellent technical vocabulary usage''
       else ''Include more '' @ field @ ''-specific technical concepts and terminology''),
      (if confidenceWords > 2 then ''Strong confident communication style detected''
       else ''Practice using more achievement-focused language''),
      (if specificMetrics > 0 then ''Good use of quantifiable results''
       else ''Always include specific numbers and measurable outcomes''),
      (if real fillerWords < real wordCount / 25 then ''Clear, fluent speech patterns''
       else ''Practice reducing filler words for more professional delivery'')]"

text \<open>Line 368.\<close>

definition speechSummary :: "nat \<Rightarrow> nat \<Rightarrow> nat \<Rightarrow> nat \<Rightarrow> real \<Rightarrow> string" where
  "speechSummary wordCount technicalTerms confidenceWords fillerWords rating' =
     ''Real speech transcription analysis: '' @ natToString wordCount
     @ '' words analyzed. Technical terms: '' @ natToString technicalTerms
     @ '', Confidence indicators: '' @ natToString confidenceWords
     @ '', Filler words: '' @ natToString fillerWords
     @ ''. Rating: '' @ ratingToString rating' @ ''/10. ''
     @ (if rating' \<ge> 7 then ''Strong interview performance with clear technical communication.''
        else if rating' \<ge> 5 then ''Good foundation with specific areas for improvement based on actual speech content.''
        else ''Focus on the identified areas to significantly enhance interview performance.'')"

text \<open>
  Lines 233 to 370. \<^verbatim>\<open>transcription.text\<close> is read without a default, so a missing text
  throws at \<^verbatim>\<open>text.split\<close>. \<^verbatim>\<open>findFillerTimestamp\<close> is called only when the filler
  mistake is pushed; otherwise no timestamp is read.
\<close>

definition analyzeRealSpeech :: "transcription \<Rightarrow> string \<Rightarrow> error + analysis" where
  "analyzeRealSpeech transcription field =
     (case transcript_text transcription of
        None \<Rightarrow> Inl TypeError
      | Some text \<Rightarrow>
          let wordCount = length (split text CHR '' '') in
          if wordCount < 5 then Inr noSpeechResult
          else if wordCount < 20 then Inr (tooBriefResult wordCount)
          else
            let technicalTerms = matchCount text technicalTermsRegex;
                confidenceWords = matchCount text confidenceWordsRegex;
                fillerWords = matchCount text fillerWordsRegex;
                specificMetrics = matchCount text specificMetricsRegex;
                questionWords = matchCount text questionWordsRegex;
                rating = computeRating wordCount technicalTerms confidenceWords fillerWords
                           specificMetrics questionWords field text
            in
            (case (if real fillerWords > real wordCount / 15
                   then findFillerTimestamp (segments transcription) fillerWords
                   else Inr []) of
               Inl e \<Rightarrow> Inl e
             | Inr fillerTimestamp \<Rightarrow>
                 let mistakes = collectMistakes wordCount technicalTerms confidenceWords fillerWords
                                  specificMetrics field fillerTimestamp;
                     tips = speechTips wordCount technicalTerms confidenceWords fillerWords
                              specificMetrics field
                 in Inr \<lparr>rating = rating,
                         mistakes = take 3 mistakes,
                         tips = take 5 tips,
                         summary = speechSummary wordCount technicalTerms confidenceWords
                                     fillerWords rating\<rparr>))"

section \<open>server.js: analyzeRealTranscription\<close>

text \<open>\<^verbatim>\<open>xs.join(sep)\<close>\<close>

fun joinStrings :: "string \<Rightarrow> string list \<Rightarrow> string" where
  "joinStrings sep [] = []"
| "joinStrings sep [x] = x"
| "joinStrings sep (x # y # xs) = x @ sep @ joinStrings sep (y # xs)"

text \<open>Lines 93 to 104, when the output of Whisper has segments: the text of the
  transcription is the texts of the segments joined by one space, and it is not trimmed.\<close>

definition whisperTranscription :: "segment list \<Rightarrow> real \<Rightarrow> transcription" where
  "whisperTranscription sgs dur =
     \<lparr>transcript_text = Some (joinStrings '' '' (map seg_text sgs)),
      segments = Some sgs,
      duration = dur\<rparr>"

text \<open>Lines 272 to 286: \<^verbatim>\<open>segments[midPoint] || segments[0]\<close>, and the fallback when the
  segment or its start is missing. Lines 280 to 282 are lines 514 to 516 of
  api/analyze.js.\<close>

definition findTimestampForIssue :: "segment list option \<Rightarrow> nat \<Rightarrow> string" where
  "findTimestampForIssue segs issueCount =
     (case segs of
        None \<Rightarrow> ''1:15''
      | Some sgs \<Rightarrow>
          if length sgs = 0 then ''1:15''
          else
            let midPoint = length sgs div 2;
                sg = (case index sgs midPoint of Some x \<Rightarrow> Some x | None \<Rightarrow> index sgs 0)
            in (case sg of
                  None \<Rightarrow> ''1:15''
                | Some x \<Rightarrow>
                    (case start x of
                       None \<Rightarrow> ''1:15''
                     | Some st \<Rightarrow> formatStart st)))"

text \<open>Lines 139 to 154.\<close>

definition noSpeechResult_server :: analysis where
  "noSpeechResult_server =
     \<lparr>rating = 0,
      mistakes = [\<lparr>timestamp = ''0:05'',
                   mistake_text = ''No meaningful speech detected - ensure microphone is working and speak clearly''\<rparr>],
      tips = [''Check microphone permissions in your browser'',
              ''Speak directly into the microphone during recording'',
              ''Record in a quiet environment without background noise'',
              ''Ensure you are actually speaking during the recording''],
      summary = ''No speech content detected for analysis. Please record again with clear audio.''\<rparr>"

text \<open>Lines 156 to 171.\<close>

definition tooBriefResult_server :: "nat \<Rightarrow> analysis" where
  "tooBriefResult_server wordCount =
     \<lparr>rating = 2,
      mistakes = [\<lparr>timestamp = ''0:10'',
                   mistake_text = ''Response too brief - provide more detailed answers with specific examples''\<rparr>],
      tips = [''Elaborate on your experience with concrete examples'',
              ''Use the STAR method (Situation, Task, Action, Result)'',
              ''Aim for 1-2 minutes per response'',
              ''Include specific technologies and metrics in your answers''],
      summary = ''Very brief response detected ('' @ natToString wordCount
                @ '' words). Expand your answers for better evaluation.''\<rparr>"

text \<open>Lines 194 to 213.\<close>

definition computeRating_server ::
  "nat \<Rightarrow> nat \<Rightarrow> nat \<Rightarrow> nat \<Rightarrow> nat \<Rightarrow> nat \<Rightarrow> string \<Rightarrow> string \<Rightarrow> real" where
  "computeRating_server wordCount technicalTerms confidenceWords fillerWords specificMetrics
       questionWords field text =
     (let rating = 4;
          rating = (if wordCount > 50 then rating + 1 else rating);
          rating = (if wordCount > 100 then rating + 0.5 else rating);
          rating = (if technicalTerms > 2 then rating + 1 else rating);
          rating = (if technicalTerms > 5 then rating + 0.5 else rating);
          rating = (if confidenceWords > 2 then rating + 1 else rating);
          rating = (if confidenceWords > 4 then rating + 0.5 else rating);
          rating = (if specificMetrics > 0 then rating + 1 else rating);
          rating = (if specificMetrics > 2 then rating + 0.5 else rating);
          rating = (if real fillerWords < real wordCount / 20 then rating + 0.5 else rating);
          rating = (if questionWords > 0 then rating + 0.5 else rating);
          fieldLower = toLowerCase field;
          rating = (if str_includes fieldLower ''senior'' \<and> technicalTerms > 4
                    then rating + 0.5 else rating);
          rating = (if str_includes fieldLower ''intern'' \<and> confidenceWords > 1
                    then rating + 0.5 else rating);
          rating = (if str_includes fieldLower ''java'' \<and> str_includes (toLowerCase text) ''java''
                    then rating + 0.5 else rating)
      in min 9 (max 1 (real_of_int (mathRound (rating * 2)) / 2)))"

text \<open>Lines 216 to 252.\<close>

definition collectMistakes_server ::
  "nat \<Rightarrow> nat \<Rightarrow> nat \<Rightarrow> nat \<Rightarrow> nat \<Rightarrow> string \<Rightarrow> segment list option \<Rightarrow> mistake list" where
  "collectMistakes_server wordCount technicalTerms confidenceWords fillerWords specificMetrics
       field segs =
     (let mistakes = [];
          mistakes =
            (if real fillerWords > real wordCount / 15
             then let fillerPercent =
                        mathRound (toDouble (toDouble (real fillerWords / real wordCount) * 100)) in
                  mistakes @ [\<lparr>timestamp = findTimestampForIssue segs fillerWords,
                                mistake_text = ''Reduce filler words (''
                                  @ numberToString (of_int fillerPercent)
                                  @ ''% of speech) - practice speaking more deliberately''\<rparr>]
             else mistakes);
          mistakes =
            (if specificMetrics = 0 \<and> wordCount > 30
             then mistakes @ [\<lparr>timestamp = ''1:30'',
                                mistake_text = ''Include specific metrics and quantifiable achievements in your examples''\<rparr>]
             else mistakes);
          mistakes =
            (if technicalTerms < 2 \<and> wordCount > 30
             then mistakes @ [\<lparr>timestamp = ''2:00'',
                                mistake_text = ''Use more '' @ field
                                  @ ''-specific technical terminology to demonstrate expertise''\<rparr>]
             else mistakes);
          mistakes =
            (if confidenceWords < 2 \<and> wordCount > 40
             then mistakes @ [\<lparr>timestamp = ''1:45'',
                                mistake_text = ''Use more confident, achievement-oriented language when describing your experience''\<rparr>]
             else mistakes);
          mistakes =
            (if wordCount < 40
             then mistakes @ [\<lparr>timestamp = ''0:30'',
                                mistake_text = ''Provide more comprehensive responses with detailed examples and context''\<rparr>]
             else mistakes)
      in mistakes)"

text \<open>Lines 255 to 262: six entries.\<close>

definition tips_server :: "nat \<Rightarrow> nat \<Rightarrow> nat \<Rightarrow> nat \<Rightarrow> nat \<Rightarrow> string \<Rightarrow> string list" where
  "tips_server wordCount technicalTerms confidenceWords fillerWords specificMetrics field =
     [''Real speech analysis: '' @ natToString wordCount
        @ '' words analyzed from your actual response'',
      ''Content includes '' @ natToString technicalTerms @ '' technical terms and ''
        @ natToString confidenceWords @ '' confidence indicators'',
      (if technicalTerms > 3 then ''Excellent technical vocabulary usage detected''
       else ''Include more '' @ field @ ''-specific technical concepts and terminology''),
      (if confidenceWords > 2 then ''Strong confident communication style observed''
       else ''Practice using more achievement-focused language''),
      (if specificMetrics > 0 then ''Good use of quantifiable results in your response''
       else ''Always include specific numbers and measurable outcomes''),
      (if real fillerWords < real wordCount / 25 then ''Clear, fluent speech patterns detected''
       else ''Practice reducing filler words for more professional delivery'')]"

text \<open>Line 268.\<close>

definition summary_server :: "nat \<Rightarrow> nat \<Rightarrow> nat \<Rightarrow> nat \<Rightarrow> real \<Rightarrow> string" where
  "summary_server wordCount technicalTerms confidenceWords fillerWords rating' =
     ''Real speech analysis of your '' @ natToString wordCount
     @ ''-word response. Technical depth: '' @ natToString technicalTerms
     @ '' terms, Confidence level: '' @ natToString confidenceWords
     @ '' indicators, Speech clarity: '' @ natToString fillerWords
     @ '' filler words. Overall rating: '' @ ratingToString rating' @ ''/10. ''
     @ (if rating' \<ge> 7 then ''Strong interview performance with clear technical communication based on your actual speech content.''
        else if rating' \<ge> 5 then ''Good foundation with specific areas for improvement identified from your real response.''
        else ''Focus on the recommended areas to significantly enhance your interview performance.'')"

text \<open>Lines 132 to 270. \<^verbatim>\<open>transcription.text || ''\<close>: a missing text counts as empty.\<close>

definition analyzeRealTranscription :: "transcription \<Rightarrow> string \<Rightarrow> analysis" where
  "analyzeRealTranscription transcription field =
     (let text = (case transcript_text transcription of None \<Rightarrow> [] | Some t \<Rightarrow> t);
          wordCount = length (split text CHR '' '')
      in
      if wordCount < 5 then noSpeechResult_server
      else if wordCount < 20 then tooBriefResult_server wordCount
      else
        let technicalTerms = matchCount text technicalTermsRegex;
            confidenceWords = matchCount text confidenceWordsRegex;
            fillerWords = matchCount text fillerWordsRegex;
            specificMetrics = matchCount text specificMetricsRegex;
            questionWords = matchCount text questionWordsRegex;
            rating = computeRating_server wordCount technicalTerms confidenceWords fillerWords
                       specificMetrics questionWords field text;
            mistakes = collectMistakes_server wordCount technicalTerms confidenceWords fillerWords
                         specificMetrics field (segments transcription);
            tips = tips_server wordCount technicalTerms confidenceWords fillerWords
                     specificMetrics field
        in \<lparr>rating = rating,
            mistakes = take 3 mistakes,
            tips = take 5 tips,
            summary = summary_server wordCount technicalTerms confidenceWords fillerWords rating\<rparr>)"

section \<open>server.js: analyzeTranscription\<close>

text \<open>Lines 960 to 975.\<close>

definition noSpeechResult_simple :: analysis where
  "noSpeechResult_simple =
     \<lparr>rating = 0,
      mistakes = [\<lparr>timestamp = ''0:05'',
                   mistake_text = ''No speech detected - ensure microphone is working and speak clearly''\<rparr>],
      tips = [''Check microphone permissions in your browser'',
              ''Speak clearly into the microphone during recording'',
              ''Record in a quiet environment'',
              ''Ensure you are actually speaking during recording''],
      summary = ''No speech content detected. Please record again with clear audio.''\<rparr>"

text \<open>Lines 977 to 992.\<close>

definition tooBriefResult_simple :: "nat \<Rightarrow> analysis" where
  "tooBriefResult_simple wordCount =
     \<lparr>rating = 2,
      mistakes = [\<lparr>timestamp = ''0:10'',
                   mistake_text = ''Response too brief - provide more detailed answers with examples''\<rparr>],
      tips = [''Use the STAR method (Situation, Task, Action, Result)'',
              ''Provide specific examples from your experience'',
              ''Aim for 1-2 minutes per response'',
              ''Include technical details relevant to the role''],
      summary = ''Brief response ('' @ natToString wordCount
                @ '' words). Expand your answers for better evaluation.''\<rparr>"

text \<open>Lines 1002 to 1010.\<close>

definition computeRating_simple :: "nat \<Rightarrow> nat \<Rightarrow> nat \<Rightarrow> nat \<Rightarrow> real" where
  "computeRating_simple wordCount technicalTerms confidenceWords fillerWords =
     (let rating = 5;
          rating = (if wordCount > 50 then rating + 1 else rating);
          rating = (if wordCount > 100 then rating + 0.5 else rating);
          rating = (if technicalTerms > 2 then rating + 1 else rating);
          rating = (if confidenceWords > 2 then rating + 0.5 else rating);
          rating = (if real fillerWords < real wordCount / 20 then rating + 0.5 else rating)
      in min 9 (max 1 (real_of_int (mathRound (rating * 2)) / 2)))"

text \<open>Lines 1013 to 1031.\<close>

definition collectMistakes_simple :: "nat \<Rightarrow> nat \<Rightarrow> nat \<Rightarrow> string \<Rightarrow> mistake list" where
  "collectMistakes_simple wordCount technicalTerms fillerWords field =
     (let mistakes = [];
          mistakes =
            (if real fillerWords > real wordCount / 15
             then mistakes @ [\<lparr>timestamp = ''1:15'',
                                mistake_text = ''Reduce filler words (''
                                  @ numberToString (of_int (mathRound
                                      (toDouble (toDouble (real fillerWords / real wordCount) * 100))))
                                  @ ''%) - practice speaking more deliberately''\<rparr>]
             else mistakes);
          mistakes =
            (if technicalTerms < 2
             then mistakes @ [\<lparr>timestamp = ''1:30'',
                                mistake_text = ''Include more '' @ field
                                  @ ''-specific technical terminology''\<rparr>]
             else mistakes);
          mistakes =
            (if wordCount < 50
             then mistakes @ [\<lparr>timestamp = ''0:30'',
                                mistake_text = ''Provide more comprehensive responses with detailed examples''\<rparr>]
             else mistakes)
      in mistakes)"

text \<open>Lines 954 to 1044. The word count drops the empty pieces of the split.\<close>

definition analyzeTranscription :: "transcription \<Rightarrow> string \<Rightarrow> analysis" where
  "analyzeTranscription transcription field =
     (let text = (case transcript_text transcription of None \<Rightarrow> [] | Some t \<Rightarrow> t);
          wordCount = length (filter (\<lambda>w. length w > 0) (split text CHR '' ''))
      in
      if wordCount < 5 then noSpeechResult_simple
      else if wordCount < 20 then tooBriefResult_simple wordCount
      else
        let technicalTerms = matchCount text technicalTermsRegex3;
            confidenceWords = matchCount text confidenceWordsRegex3;
            fillerWords = matchCount text fillerWordsRegex3;
            rating = computeRating_simple wordCount technicalTerms confidenceWords fillerWords;
            mistakes = collectMistakes_simple wordCount technicalTerms fillerWords field
        in \<lparr>rating = rating,
            mistakes = take 3 mistakes,
            tips = [''Real analysis: '' @ natToString wordCount @ '' words, ''
                      @ natToString technicalTerms @ '' technical terms, ''
                      @ natToString confidenceWords @ '' confidence words'',
                    (if technicalTerms > 3 then ''Excellent technical vocabulary''
                     else ''Include more technical concepts''),
                    (if confidenceWords > 2 then ''Strong confident language''
                     else ''Use more achievement-focused language''),
                    ''Based on your actual spoken content, not generic feedback''],
            summary = ''Real speech analysis: '' @ natToString wordCount
                      @ '' words analyzed. Technical depth: '' @ natToString technicalTerms
                      @ '', Confidence: '' @ natToString confidenceWords
                      @ ''. Rating: '' @ ratingToString rating
                      @ ''/10 based on actual speech content.''\<rparr>)"

section \<open>The lexical features and the specification's rules\<close>

text \<open>The counts as \<^verbatim>\<open>analyzeRealSpeech\<close> and \<^verbatim>\<open>analyzeRealTranscription\<close> compute them
  from the text (\<^verbatim>\<open>text.split(' ').length\<close> and the five \<^verbatim>\<open>match\<close> calls), and the
  word count of \<^verbatim>\<open>analyzeTranscription\<close>.\<close>

definition splitWordCount :: "string \<Rightarrow> nat" where
  "splitWordCount text = length (split text CHR '' '')"

definition filteredWordCount :: "string \<Rightarrow> nat" where
  "filteredWordCount text = length (filter (\<lambda>w. length w > 0) (split text CHR '' ''))"

definition technicalTermCount :: "string \<Rightarrow> nat" where
  "technicalTermCount text = matchCount text technicalTermsRegex"

definition confidenceWordCount :: "string \<Rightarrow> nat" where
  "confidenceWordCount text = matchCount text confidenceWordsRegex"

definition fillerWordCount :: "string \<Rightarrow> nat" where
  "fillerWordCount text = matchCount text fillerWordsRegex"

definition specificMetricCount :: "string \<Rightarrow> nat" where
  "specificMetricCount text = matchCount text specificMetricsRegex"

definition questionWordCount :: "string \<Rightarrow> nat" where
  "questionWordCount text = matchCount text questionWordsRegex"

text \<open>The word count in the specification's words: the text is split on runs of
  whitespace and the zero-length tokens are discarded.\<close>

fun splitWhen :: "(char \<Rightarrow> bool) \<Rightarrow> string \<Rightarrow> string \<Rightarrow> string list" where
  "splitWhen p cur [] = [cur]"
| "splitWhen p cur (c # cs) =
     (if p c then cur # splitWhen p [] cs else splitWhen p (cur @ [c]) cs)"

definition spec_wordCount :: "string \<Rightarrow> nat" where
  "spec_wordCount text = length (filter (\<lambda>w. w \<noteq> []) (splitWhen isSpace [] text))"

text \<open>A text in which no piece between two spaces, before the first or after the last
  space is empty: the words are separated by single spaces, and the text is not empty.\<close>

definition noEmptyPieces :: "string \<Rightarrow> bool" where
  "noEmptyPieces text = list_all (\<lambda>w. w \<noteq> []) (split text CHR '' '')"

text \<open>A text whose only white space is the space character.\<close>

definition onlySpaceAsWhiteSpace :: "string \<Rightarrow> bool" where
  "onlySpaceAsWhiteSpace text = list_all (\<lambda>c. isSpace c = (c = CHR '' '')) text"

text \<open>The weighted rule in the specification's words: a base of 4, the tiered and the
  single increments, the three field bonuses, then the clamp to the interval from 1 to 9
  and the rounding to the nearest half.\<close>

definition tier :: "bool \<Rightarrow> bool \<Rightarrow> real" where
  "tier first further = (if first then 1 + (if further then 0.5 else 0) else 0)"

definition bonus :: "bool \<Rightarrow> real" where
  "bonus applies = (if applies then 0.5 else 0)"

definition containsIgnoringCase :: "string \<Rightarrow> string \<Rightarrow> bool" where
  "containsIgnoringCase s w = str_includes (toLowerCase s) (toLowerCase w)"

definition clamp :: "real \<Rightarrow> real \<Rightarrow> real \<Rightarrow> real" where
  "clamp lo hi x = (if x < lo then lo else if hi < x then hi else x)"

definition roundToHalf :: "real \<Rightarrow> real" where
  "roundToHalf x = real_of_int (round (2 * x)) / 2"

definition spec_rating ::
  "nat \<Rightarrow> nat \<Rightarrow> nat \<Rightarrow> nat \<Rightarrow> nat \<Rightarrow> nat \<Rightarrow> string \<Rightarrow> string \<Rightarrow> real" where
  "spec_rating wordCount technicalTermCount' confidenceWordCount' fillerWordCount'
       specificMetricCount' questionWordCount' field text =
     roundToHalf (clamp 1 9
       (4 + tier (wordCount > 50) (wordCount > 100)
          + tier (technicalTermCount' > 2) (technicalTermCount' > 5)
          + tier (confidenceWordCount' > 2) (confidenceWordCount' > 4)
          + tier (specificMetricCount' > 0) (specificMetricCount' > 2)
          + bonus (real fillerWordCount' < real wordCount / 20)
          + bonus (questionWordCount' > 0)
          + bonus (containsIgnoringCase field ''senior'' \<and> technicalTermCount' > 4)
          + bonus (containsIgnoringCase field ''intern'' \<and> confidenceWordCount' > 1)
          + bonus (containsIgnoringCase field ''java'' \<and> containsIgnoringCase text ''java'')))"

text \<open>A start time in the form \<^verbatim>\<open>M:SS\<close>: the whole minutes, a colon, and the remaining
  whole seconds in two digits.\<close>

definition formatMSS :: "real \<Rightarrow> string" where
  "formatMSS st =
     (let total = nat \<lfloor>st\<rfloor> in
      natToString (total div 60) @ '':''
      @ [digitChar (total mod 60 div 10), digitChar (total mod 60 mod 10)])"

text \<open>The specification's segments: a start that is a double, not negative and below
  \<open>2\<^sup>5\<^sup>3\<close> seconds, and an end that is not before it. The timestamp of the filler mistake
  in the specification's words.\<close>

definition wellFormedSegment :: "segment \<Rightarrow> bool" where
  "wellFormedSegment sg =
     (case start sg of
        None \<Rightarrow> False
      | Some a \<Rightarrow>
          toDouble a = a \<and> 0 \<le> a \<and> a < 2 ^ 53
          \<and> (case seg_end sg of None \<Rightarrow> False | Some b \<Rightarrow> a \<le> b))"

definition wellFormedSegments :: "segment list option \<Rightarrow> bool" where
  "wellFormedSegments segs = (case segs of None \<Rightarrow> True | Some sgs \<Rightarrow> list_all wellFormedSegment sgs)"

definition spec_fillerTimestamp :: "segment list option \<Rightarrow> string" where
  "spec_fillerTimestamp segs =
     (case segs of
        None \<Rightarrow> ''1:15''
      | Some sgs \<Rightarrow>
          if sgs = [] then ''1:15'' else formatMSS (the (start (sgs ! (length sgs div 2)))))"

section \<open>Auxiliary definitions\<close>

text \<open>One conditional increment of the rating, and the rating before the rounding and the
  clamp as the chain of the thirteen increments of lines 295 to 312.\<close>

definition addIf :: "bool \<Rightarrow> real \<Rightarrow> real \<Rightarrow> real" where
  "addIf c d r = (if c then r + d else r)"

definition scoreSum ::
  "nat \<Rightarrow> nat \<Rightarrow> nat \<Rightarrow> nat \<Rightarrow> nat \<Rightarrow> nat \<Rightarrow> string \<Rightarrow> string \<Rightarrow> real" where
  "scoreSum wc tt cw fw sm qw field text =
     addIf (str_includes (toLowerCase field) ''java'' \<and> str_includes (toLowerCase text) ''java'') 0.5
     (addIf (str_includes (toLowerCase field) ''intern'' \<and> cw > 1) 0.5
     (addIf (str_includes (toLowerCase field) ''senior'' \<and> tt > 4) 0.5
     (addIf (qw > 0) 0.5
     (addIf (real fw < real wc / 20) 0.5
     (addIf (sm > 2) 0.5
     (addIf (sm > 0) 1
     (addIf (cw > 4) 0.5
     (addIf (cw > 2) 1
     (addIf (tt > 5) 0.5
     (addIf (tt > 2) 1
     (addIf (wc > 100) 0.5
     (addIf (wc > 50) 1 4))))))))))))"

text \<open>Example inputs: an answer of 21 words with no word of any vocabulary, an answer of 22
  words with 13 filler words, an answer of 9 words, two words on two lines, and transcripts
  around them.\<close>

definition plainText :: string where
  "plainText =
     ''we went to the park and then we went to the store and then we went to the lake and sat''"

definition fillerText :: string where
  "fillerText =
     ''um so I like basically worked on uh the project and um well you know it was like okay so yeah right''"

definition briefText :: string where
  "briefText = ''I worked on the backend team for two years''"

definition twoLineText :: string where
  "twoLineText = ''hello'' @ [CHR 0x0A] @ ''world''"

definition emptyTranscript :: transcription where
  "emptyTranscript = \<lparr>transcript_text = Some [], segments = Some [], duration = 0\<rparr>"

definition briefTranscript :: transcription where
  "briefTranscript = \<lparr>transcript_text = Some briefText, segments = Some [], duration = 4\<rparr>"

definition plainTranscript :: transcription where
  "plainTranscript = \<lparr>transcript_text = Some plainText, segments = Some [], duration = 9\<rparr>"

definition fillerTranscript :: transcription where
  "fillerTranscript =
     \<lparr>transcript_text = Some fillerText,
      segments = Some [\<lparr>start = Some 0, seg_end = Some 4.25, seg_text = ''um so I like basically''\<rparr>,
                       \<lparr>start = Some 65.5, seg_end = Some 70, seg_text = ''worked on uh the project and um well''\<rparr>,
                       \<lparr>start = Some 130, seg_end = Some 141.75, seg_text = ''you know it was like okay so yeah right''\<rparr>],
      duration = 141.75\<rparr>"

definition fillerTranscriptNoSegments :: transcription where
  "fillerTranscriptNoSegments =
     \<lparr>transcript_text = Some fillerText, segments = None, duration = 0\<rparr>"

text \<open>An answer of 21 words, single spaces between them, with one percentage.\<close>

definition percentText :: string where
  "percentText =
     ''we grew sales by 50% last year and then we went to the park and then we went to the lake''"

definition percentTranscript :: transcription where
  "percentTranscript = \<lparr>transcript_text = Some percentText, segments = None, duration = 0\<rparr>"

text \<open>
  Transcriptions as server.js builds them from segments of Whisper, whose texts begin with
  a space: three words in three segments; twenty words with one filler word in two
  segments; twenty words with two filler words in ten segments.
\<close>

definition threeWordSegments :: "segment list" where
  "threeWordSegments =
     [\<lparr>start = Some 0, seg_end = Some 1, seg_text = '' yes''\<rparr>,
      \<lparr>start = Some 1, seg_end = Some 2, seg_text = '' no''\<rparr>,
      \<lparr>start = Some 2, seg_end = Some 3, seg_text = '' maybe''\<rparr>]"

definition threeWordText :: string where
  "threeWordText = '' yes  no  maybe''"

definition twentyWordSegments :: "segment list" where
  "twentyWordSegments =
     [\<lparr>start = Some 0, seg_end = Some 5, seg_text = '' um we went to the park and then we went to''\<rparr>,
      \<lparr>start = Some 5, seg_end = Some 10, seg_text = '' the store and then we went to the lake''\<rparr>]"

definition twentyWordText :: string where
  "twentyWordText =
     '' um we went to the park and then we went to  the store and then we went to the lake''"

definition tenSegments :: "segment list" where
  "tenSegments =
     [\<lparr>start = Some 0, seg_end = Some 1, seg_text = '' um we''\<rparr>,
      \<lparr>start = Some 1, seg_end = Some 2, seg_text = '' went to''\<rparr>,
      \<lparr>start = Some 2, seg_end = Some 3, seg_text = '' the park''\<rparr>,
      \<lparr>start = Some 3, seg_end = Some 4, seg_text = '' and then''\<rparr>,
      \<lparr>start = Some 4, seg_end = Some 5, seg_text = '' um we''\<rparr>,
      \<lparr>start = Some 5, seg_end = Some 6, seg_text = '' went to''\<rparr>,
      \<lparr>start = Some 6, seg_end = Some 7, seg_text = '' the store''\<rparr>,
      \<lparr>start = Some 7, seg_end = Some 8, seg_text = '' and sat''\<rparr>,
      \<lparr>start = Some 8, seg_end = Some 9, seg_text = '' on the''\<rparr>,
      \<lparr>start = Some 9, seg_end = Some 10, seg_text = '' green bench''\<rparr>]"

definition tenSegmentText :: string where
  "tenSegmentText =
     '' um we  went to  the park  and then  um we  went to  the store  and sat  on the  green bench''"

section \<open>The rating before the clamp\<close>

lemma addIf_fold: "(if c then r + d else r) = addIf c d r"
  by (simp add: addIf_def)

lemma computeRating_addIf:
  "computeRating wc tt cw fw sm qw field text =
     min 9 (max 1 (real_of_int (mathRound (scoreSum wc tt cw fw sm qw field text * 2)) / 2))"
  unfolding computeRating_def addIf_fold Let_def scoreSum_def ..

lemma computeRating_server_addIf:
  "computeRating_server wc tt cw fw sm qw field text =
     min 9 (max 1 (real_of_int (mathRound (scoreSum wc tt cw fw sm qw field text * 2)) / 2))"
  unfolding computeRating_server_def addIf_fold Let_def scoreSum_def ..

lemma addIf_sum: "addIf c d r = r + (if c then d else 0)"
  by (simp add: addIf_def)

lemma addIf_half: "r * 2 \<in> \<int> \<Longrightarrow> d * 2 \<in> \<int> \<Longrightarrow> addIf c d r * 2 \<in> \<int>"
  by (simp add: addIf_def distrib_right)

lemma addIf_ge: "0 \<le> d \<Longrightarrow> b \<le> r \<Longrightarrow> b \<le> addIf c d r"
  by (simp add: addIf_def)

lemma scoreSum_half: "scoreSum wc tt cw fw sm qw field text * 2 \<in> \<int>"
  unfolding scoreSum_def by (intro addIf_half) simp_all

lemma scoreSum_ge_4: "4 \<le> scoreSum wc tt cw fw sm qw field text"
  unfolding scoreSum_def by (intro addIf_ge) simp_all

lemma mathRound_half:
  assumes "x * 2 \<in> \<int>"
  shows "real_of_int (mathRound (x * 2)) / 2 = x"
proof -
  from assms obtain k :: int where k: "x * 2 = of_int k"
    by (auto elim: Ints_cases)
  have "mathRound (of_int k) = k"
    unfolding mathRound_def by linarith
  with k show ?thesis by simp
qed

lemma computeRating_closed:
  "computeRating wc tt cw fw sm qw field text = min 9 (max 1 (scoreSum wc tt cw fw sm qw field text))"
  by (simp only: computeRating_addIf mathRound_half [OF scoreSum_half])

lemma computeRating_server_closed:
  "computeRating_server wc tt cw fw sm qw field text = min 9 (max 1 (scoreSum wc tt cw fw sm qw field text))"
  by (simp only: computeRating_server_addIf mathRound_half [OF scoreSum_half])

lemma roundToHalf_half:
  assumes "x * 2 \<in> \<int>"
  shows "roundToHalf x = x"
proof -
  from assms obtain k :: int where k: "x * 2 = of_int k"
    by (auto elim: Ints_cases)
  then have "2 * x = of_int k" by simp
  then have "round (2 * x) = k" by simp
  with k show ?thesis
    unfolding roundToHalf_def by simp
qed

lemma clamp_min_max: "clamp 1 9 x = min 9 (max 1 x)"
  by (simp add: clamp_def min_def max_def)

lemma min_max_half: "x * 2 \<in> \<int> \<Longrightarrow> min 9 (max 1 x) * 2 \<in> \<int>" for x :: real
  by (simp add: min_def max_def)

lemma spec_sum:
  "4 + tier (wc > 50) (wc > 100) + tier (tt > 2) (tt > 5) + tier (cw > 2) (cw > 4)
     + tier (sm > 0) (sm > 2) + bonus (real fw < real wc / 20) + bonus (qw > 0)
     + bonus (containsIgnoringCase field ''senior'' \<and> tt > 4)
     + bonus (containsIgnoringCase field ''intern'' \<and> cw > 1)
     + bonus (containsIgnoringCase field ''java'' \<and> containsIgnoringCase text ''java'')
   = scoreSum wc tt cw fw sm qw field text"
  by (simp add: scoreSum_def addIf_sum tier_def bonus_def containsIgnoringCase_def toLowerCase_def lowerChar_def inRange_def)

lemma spec_rating_closed:
  "spec_rating wc tt cw fw sm qw field text = min 9 (max 1 (scoreSum wc tt cw fw sm qw field text))"
  unfolding spec_rating_def spec_sum clamp_min_max
  by (rule roundToHalf_half [OF min_max_half [OF scoreSum_half]])

section \<open>The three branches of the analysers\<close>

lemma index_mid: "sgs \<noteq> [] \<Longrightarrow> index sgs (length sgs div 2) = Some (sgs ! (length sgs div 2))"
  by (simp add: index_def)

lemma findFillerTimestamp_total: "\<exists>ts. findFillerTimestamp segs n = Inr ts"
  by (cases segs) (auto simp: findFillerTimestamp_def index_mid Let_def split: option.splits)

lemma analyzeRealSpeech_noSpeech:
  assumes "transcript_text t = Some text" and "splitWordCount text < 5"
  shows "analyzeRealSpeech t field = Inr noSpeechResult"
  using assms by (simp add: analyzeRealSpeech_def splitWordCount_def)

lemma analyzeRealSpeech_tooBrief:
  assumes "transcript_text t = Some text" and "5 \<le> splitWordCount text" and "splitWordCount text < 20"
  shows "analyzeRealSpeech t field = Inr (tooBriefResult (splitWordCount text))"
  using assms by (simp add: analyzeRealSpeech_def splitWordCount_def)

lemma analyzeRealSpeech_general:
  assumes "transcript_text t = Some text" and "20 \<le> splitWordCount text"
  shows "\<exists>ts. (if real (fillerWordCount text) > real (splitWordCount text) / 15
               then findFillerTimestamp (segments t) (fillerWordCount text) else Inr []) = Inr ts
           \<and> analyzeRealSpeech t field =
             Inr \<lparr>rating = computeRating (splitWordCount text) (technicalTermCount text)
                             (confidenceWordCount text) (fillerWordCount text)
                             (specificMetricCount text) (questionWordCount text) field text,
                  mistakes = take 3 (collectMistakes (splitWordCount text) (technicalTermCount text)
                             (confidenceWordCount text) (fillerWordCount text)
                             (specificMetricCount text) field ts),
                  tips = take 5 (speechTips (splitWordCount text) (technicalTermCount text)
                             (confidenceWordCount text) (fillerWordCount text)
                             (specificMetricCount text) field),
                  summary = speechSummary (splitWordCount text) (technicalTermCount text)
                             (confidenceWordCount text) (fillerWordCount text)
                             (computeRating (splitWordCount text) (technicalTermCount text)
                               (confidenceWordCount text) (fillerWordCount text)
                               (specificMetricCount text) (questionWordCount text) field text)\<rparr>"
proof -
  have wc: "\<not> splitWordCount text < 5" "\<not> splitWordCount text < 20"
    using assms(2) by simp_all
  show ?thesis
  proof (cases "real (fillerWordCount text) > real (splitWordCount text) / 15")
    case True
    obtain ts where "findFillerTimestamp (segments t) (fillerWordCount text) = Inr ts"
      using findFillerTimestamp_total by blast
    with True wc assms(1) show ?thesis
      by (intro exI [of _ ts])
         (simp add: analyzeRealSpeech_def splitWordCount_def technicalTermCount_def
            confidenceWordCount_def fillerWordCount_def specificMetricCount_def
            questionWordCount_def Let_def)
  next
    case False
    with wc assms(1) show ?thesis
      by (intro exI [of _ "[]"])
         (simp add: analyzeRealSpeech_def splitWordCount_def technicalTermCount_def
            confidenceWordCount_def fillerWordCount_def specificMetricCount_def
            questionWordCount_def Let_def)
  qed
qed

lemma analyzeRealTranscription_noSpeech:
  assumes "transcript_text t = Some text" and "splitWordCount text < 5"
  shows "analyzeRealTranscription t field = noSpeechResult_server"
  using assms by (simp add: analyzeRealTranscription_def splitWordCount_def)

lemma analyzeRealTranscription_tooBrief:
  assumes "transcript_text t = Some text" and "5 \<le> splitWordCount text" and "splitWordCount text < 20"
  shows "analyzeRealTranscription t field = tooBriefResult_server (splitWordCount text)"
  using assms by (simp add: analyzeRealTranscription_def splitWordCount_def)

lemma analyzeRealTranscription_general:
  assumes "transcript_text t = Some text" and "20 \<le> splitWordCount text"
  shows "analyzeRealTranscription t field =
             \<lparr>rating = computeRating_server (splitWordCount text) (technicalTermCount text)
                             (confidenceWordCount text) (fillerWordCount text)
                             (specificMetricCount text) (questionWordCount text) field text,
                  mistakes = take 3 (collectMistakes_server (splitWordCount text) (technicalTermCount text)
                             (confidenceWordCount text) (fillerWordCount text)
                             (specificMetricCount text) field (segments t)),
                  tips = take 5 (tips_server (splitWordCount text) (technicalTermCount text)
                             (confidenceWordCount text) (fillerWordCount text)
                             (specificMetricCount text) field),
                  summary = summary_server (splitWordCount text) (technicalTermCount text)
                             (confidenceWordCount text) (fillerWordCount text)
                             (computeRating_server (splitWordCount text) (technicalTermCount text)
                               (confidenceWordCount text) (fillerWordCount text)
                               (specificMetricCount text) (questionWordCount text) field text)\<rparr>"
proof -
  have "\<not> splitWordCount text < 5" "\<not> splitWordCount text < 20"
    using assms(2) by simp_all
  then show ?thesis
    using assms(1)
    by (simp add: analyzeRealTranscription_def splitWordCount_def technicalTermCount_def
          confidenceWordCount_def fillerWordCount_def specificMetricCount_def
          questionWordCount_def Let_def)
qed

section \<open>The transcripts built from segments\<close>

text \<open>The counts of the example transcripts, by evaluation of the regular expressions.\<close>

lemmas regex_eval =
  wordsRegex_def anyOf_def matchAt_def wordBoundary_def startsWithWordChar_def
  isWordChar_def inRange_def

lemma threeWord_joined:
  "transcript_text (whisperTranscription threeWordSegments d) = Some threeWordText"
  by (simp add: whisperTranscription_def threeWordSegments_def threeWordText_def)

lemma threeWord_counts:
  "splitWordCount threeWordText = 6" "filteredWordCount threeWordText = 3"
  "spec_wordCount threeWordText = 3"
  by (simp_all add: splitWordCount_def filteredWordCount_def spec_wordCount_def split_def
        threeWordText_def isSpace_def inRange_def)

lemma twentyWord_joined:
  "transcript_text (whisperTranscription twentyWordSegments d) = Some twentyWordText"
  by (simp add: whisperTranscription_def twentyWordSegments_def twentyWordText_def)

lemma twentyWord_counts:
  "splitWordCount twentyWordText = 22" "filteredWordCount twentyWordText = 20"
  "spec_wordCount twentyWordText = 20"
  by (simp_all add: splitWordCount_def filteredWordCount_def spec_wordCount_def split_def
        twentyWordText_def isSpace_def inRange_def)

lemma twentyWord_lower: "map lowerChar twentyWordText = twentyWordText"
  by (simp add: twentyWordText_def lowerChar_def inRange_def)

lemma twentyWord_technical: "technicalTermCount twentyWordText = 0"
  unfolding technicalTermCount_def matchCount_def twentyWord_lower
  by (simp add: twentyWordText_def technicalTermsRegex_def regex_eval)

lemma twentyWord_confidence: "confidenceWordCount twentyWordText = 0"
  unfolding confidenceWordCount_def matchCount_def twentyWord_lower
  by (simp add: twentyWordText_def confidenceWordsRegex_def regex_eval)

lemma twentyWord_filler: "fillerWordCount twentyWordText = 1"
  unfolding fillerWordCount_def matchCount_def twentyWord_lower
  by (simp add: twentyWordText_def fillerWordsRegex_def regex_eval)

lemma twentyWord_metrics: "specificMetricCount twentyWordText = 0"
  unfolding specificMetricCount_def matchCount_def twentyWord_lower
  by (simp add: twentyWordText_def specificMetricsRegex_def metricUnits_def regex_eval
        isDigit_def isSpace_def)

lemma twentyWord_question: "questionWordCount twentyWordText = 0"
  unfolding questionWordCount_def matchCount_def twentyWord_lower
  by (simp add: twentyWordText_def questionWordsRegex_def regex_eval)

lemma tenSegment_joined:
  "transcript_text (whisperTranscription tenSegments d) = Some tenSegmentText"
  by (simp add: whisperTranscription_def tenSegments_def tenSegmentText_def)

lemma tenSegment_counts:
  "splitWordCount tenSegmentText = 30" "filteredWordCount tenSegmentText = 20"
  "spec_wordCount tenSegmentText = 20"
  by (simp_all add: splitWordCount_def filteredWordCount_def spec_wordCount_def split_def
        tenSegmentText_def isSpace_def inRange_def)

lemma tenSegment_lower: "map lowerChar tenSegmentText = tenSegmentText"
  by (simp add: tenSegmentText_def lowerChar_def inRange_def)

lemma tenSegment_technical: "technicalTermCount tenSegmentText = 0"
  unfolding technicalTermCount_def matchCount_def tenSegment_lower
  by (simp add: tenSegmentText_def technicalTermsRegex_def regex_eval)

lemma tenSegment_confidence: "confidenceWordCount tenSegmentText = 0"
  unfolding confidenceWordCount_def matchCount_def tenSegment_lower
  by (simp add: tenSegmentText_def confidenceWordsRegex_def regex_eval)

lemma tenSegment_filler: "fillerWordCount tenSegmentText = 2"
  unfolding fillerWordCount_def matchCount_def tenSegment_lower
  by (simp add: tenSegmentText_def fillerWordsRegex_def regex_eval)

lemma tenSegment_metrics: "specificMetricCount tenSegmentText = 0"
  unfolding specificMetricCount_def matchCount_def tenSegment_lower
  by (simp add: tenSegmentText_def specificMetricsRegex_def metricUnits_def regex_eval
        isDigit_def isSpace_def)

lemma percentText_counts:
  "splitWordCount percentText = 21" "filteredWordCount percentText = 21"
  "spec_wordCount percentText = 21"
  by (simp_all add: splitWordCount_def filteredWordCount_def spec_wordCount_def split_def
        percentText_def isSpace_def inRange_def)

lemma percentText_lower: "map lowerChar percentText = percentText"
  by (simp add: percentText_def lowerChar_def inRange_def)

lemma percentText_technical: "technicalTermCount percentText = 0"
  unfolding technicalTermCount_def matchCount_def percentText_lower
  by (simp add: percentText_def technicalTermsRegex_def regex_eval)

lemma percentText_confidence: "confidenceWordCount percentText = 0"
  unfolding confidenceWordCount_def matchCount_def percentText_lower
  by (simp add: percentText_def confidenceWordsRegex_def regex_eval)

lemma percentText_filler: "fillerWordCount percentText = 0"
  unfolding fillerWordCount_def matchCount_def percentText_lower
  by (simp add: percentText_def fillerWordsRegex_def regex_eval)

lemma percentText_metrics: "specificMetricCount percentText = 0"
  unfolding specificMetricCount_def matchCount_def percentText_lower
  by (simp add: percentText_def specificMetricsRegex_def metricUnits_def regex_eval
        isDigit_def isSpace_def)

lemma percentText_question: "questionWordCount percentText = 0"
  unfolding questionWordCount_def matchCount_def percentText_lower
  by (simp add: percentText_def questionWordsRegex_def regex_eval)

lemma scoreSum_22: "scoreSum 22 0 0 1 0 0 ''software'' twentyWordText = 9 / 2"
  by (simp add: scoreSum_def addIf_def toLowerCase_def lowerChar_def inRange_def)

lemma spec_rating_20: "spec_rating 20 0 0 1 0 0 ''software'' twentyWordText = 4"
  unfolding spec_rating_closed
  by (simp add: scoreSum_def addIf_def toLowerCase_def lowerChar_def inRange_def)

lemma collect_30:
  "collectMistakes 30 0 0 2 0 field ts =
     [\<lparr>timestamp = ''0:30'',
       mistake_text = ''Provide more comprehensive responses with detailed examples and context''\<rparr>]"
  by (simp add: collectMistakes_def)

lemma collect_server_30:
  "collectMistakes_server 30 0 0 2 0 field segs =
     [\<lparr>timestamp = ''0:30'',
       mistake_text = ''Provide more comprehensive responses with detailed examples and context''\<rparr>]"
  by (simp add: collectMistakes_server_def)

lemma scoreSum_percent: "scoreSum 21 0 0 0 0 0 ''software'' percentText = 9 / 2"
  by (simp add: scoreSum_def addIf_def toLowerCase_def lowerChar_def inRange_def)

lemma spec_rating_percent: "spec_rating 21 0 0 0 1 0 ''software'' percentText = 11 / 2"
  unfolding spec_rating_closed
  by (simp add: scoreSum_def addIf_def toLowerCase_def lowerChar_def inRange_def)

section \<open>The rating is the weighted rule\<close>

text \<open>
  On the counts that the code computes, the rating of \<^verbatim>\<open>analyzeRealSpeech\<close> and of
  \<^verbatim>\<open>analyzeRealTranscription\<close> is the result of the weighted rule: rounding to a half and
  then clamping, as the code does, is clamping and then rounding, because the sum is a
  multiple of one half.
\<close>

lemma rating_rule_on_split_count:
  assumes "transcript_text t = Some text" and "20 \<le> splitWordCount text"
  shows "(\<exists>r. analyzeRealSpeech t field = Inr r \<and>
              rating r = spec_rating (splitWordCount text) (technicalTermCount text)
                           (confidenceWordCount text) (fillerWordCount text)
                           (specificMetricCount text) (questionWordCount text) field text)
       \<and> rating (analyzeRealTranscription t field) =
             spec_rating (splitWordCount text) (technicalTermCount text)
               (confidenceWordCount text) (fillerWordCount text)
               (specificMetricCount text) (questionWordCount text) field text"
proof
  from analyzeRealSpeech_general [OF assms, of field]
  show "\<exists>r. analyzeRealSpeech t field = Inr r \<and>
              rating r = spec_rating (splitWordCount text) (technicalTermCount text)
                           (confidenceWordCount text) (fillerWordCount text)
                           (specificMetricCount text) (questionWordCount text) field text"
    by (auto simp: computeRating_closed spec_rating_closed)
  show "rating (analyzeRealTranscription t field) =
             spec_rating (splitWordCount text) (technicalTermCount text)
               (confidenceWordCount text) (fillerWordCount text)
               (specificMetricCount text) (questionWordCount text) field text"
    by (simp add: analyzeRealTranscription_general [OF assms] computeRating_server_closed
          spec_rating_closed)
qed

text \<open>
  Claim C1 says that for a word count of at least 20 the rating is the weighted rule on the
  word count and the feature counts of the text. The code takes for the word count the
  number of pieces of \<^verbatim>\<open>text.split(' ')\<close>, the empty ones included. The text that
  server.js joins from the two segments of \<open>twentyWordSegments\<close> has 20 words, one of them
  a filler word, and 22 pieces: the rule gives 4, since 1 is not below 20/20, and both
  analysers return 4.5, since 1 is below 22/20. The metric pattern ends in \<^verbatim>\<open>\b\<close>, which
  fails between \<^verbatim>\<open>%\<close> and a space: in \<open>percentText\<close>, of 21 words and as many pieces,
  \<^verbatim>\<open>50%\<close> is not counted, and both analysers return 4.5 where the rule with one
  specific metric gives 5.5.
\<close>

theorem rating_of_joined_segments:
  "transcript_text (whisperTranscription twentyWordSegments 10) = Some twentyWordText
   \<and> filteredWordCount twentyWordText = 20 \<and> spec_wordCount twentyWordText = 20
   \<and> technicalTermCount twentyWordText = 0 \<and> confidenceWordCount twentyWordText = 0
   \<and> fillerWordCount twentyWordText = 1 \<and> specificMetricCount twentyWordText = 0
   \<and> questionWordCount twentyWordText = 0
   \<and> spec_rating 20 0 0 1 0 0 ''software'' twentyWordText = 4
   \<and> splitWordCount twentyWordText = 22
   \<and> (\<exists>r. analyzeRealSpeech (whisperTranscription twentyWordSegments 10) ''software'' = Inr r
          \<and> rating r = 9 / 2)
   \<and> rating (analyzeRealTranscription (whisperTranscription twentyWordSegments 10) ''software'')
       = 9 / 2
   \<and> transcript_text percentTranscript = Some percentText
   \<and> filteredWordCount percentText = 21 \<and> spec_wordCount percentText = 21
   \<and> splitWordCount percentText = 21
   \<and> specificMetricCount percentText = 0
   \<and> spec_rating 21 0 0 0 1 0 ''software'' percentText = 11 / 2
   \<and> (\<exists>r. analyzeRealSpeech percentTranscript ''software'' = Inr r \<and> rating r = 9 / 2)
   \<and> rating (analyzeRealTranscription percentTranscript ''software'') = 9 / 2"
proof -
  have h1: "transcript_text (whisperTranscription twentyWordSegments 10) = Some twentyWordText"
    by (rule twentyWord_joined)
  have h2: "20 \<le> splitWordCount twentyWordText"
    by (simp add: twentyWord_counts)
  have r1: "\<exists>r. analyzeRealSpeech (whisperTranscription twentyWordSegments 10) ''software'' = Inr r
          \<and> rating r = 9 / 2"
    using analyzeRealSpeech_general [OF h1 h2, of "''software''"]
    unfolding twentyWord_counts twentyWord_technical twentyWord_confidence twentyWord_filler
      twentyWord_metrics twentyWord_question computeRating_closed scoreSum_22
    by auto
  have r2: "rating (analyzeRealTranscription (whisperTranscription twentyWordSegments 10)
              ''software'') = 9 / 2"
    unfolding analyzeRealTranscription_general [OF h1 h2] twentyWord_counts
      twentyWord_technical twentyWord_confidence twentyWord_filler twentyWord_metrics
      twentyWord_question computeRating_server_closed scoreSum_22
    by simp
  have p1: "transcript_text percentTranscript = Some percentText"
    by (simp add: percentTranscript_def)
  have p2: "20 \<le> splitWordCount percentText"
    by (simp add: percentText_counts)
  have r3: "\<exists>r. analyzeRealSpeech percentTranscript ''software'' = Inr r \<and> rating r = 9 / 2"
    using analyzeRealSpeech_general [OF p1 p2, of "''software''"]
    unfolding percentText_counts percentText_technical percentText_confidence
      percentText_filler percentText_metrics percentText_question computeRating_closed
      scoreSum_percent
    by auto
  have r4: "rating (analyzeRealTranscription percentTranscript ''software'') = 9 / 2"
    unfolding analyzeRealTranscription_general [OF p1 p2] percentText_counts
      percentText_technical percentText_confidence percentText_filler percentText_metrics
      percentText_question computeRating_server_closed scoreSum_percent
    by simp
  note facts = h1 r1 r2 p1 r3 r4 twentyWord_counts twentyWord_technical twentyWord_confidence
    twentyWord_filler twentyWord_metrics twentyWord_question spec_rating_20
    percentText_counts percentText_metrics spec_rating_percent
  show ?thesis
    by (intro conjI; rule facts)
qed

lemma str_includes_Nil: "str_includes s []"
  by (cases s) simp_all

lemma str_includes_prefix: "str_includes (b @ c) b"
proof (cases "b @ c")
  case Nil
  then show ?thesis by simp
next
  case (Cons x xs)
  have "take (length b) (b @ c) = b" by simp
  with Cons show ?thesis by simp
qed

lemma str_includes_middle: "str_includes (a @ b @ c) b"
  by (induction a) (simp_all add: str_includes_prefix)

section \<open>The result for almost no speech\<close>

text \<open>
  Claim C2 says that a transcript of fewer than 5 words gets the fixed result for no
  speech, with rating 0. The text that server.js joins from the three segments of
  \<open>threeWordSegments\<close> has 3 words and 6 pieces, the empty ones before each word included:
  \<^verbatim>\<open>analyzeRealSpeech\<close> and \<^verbatim>\<open>analyzeRealTranscription\<close> take 6 for its word count and
  return their result for a brief answer, with rating 2.
\<close>

theorem no_speech_of_joined_segments:
  "transcript_text (whisperTranscription threeWordSegments 3) = Some threeWordText
   \<and> filteredWordCount threeWordText = 3 \<and> spec_wordCount threeWordText = 3
   \<and> splitWordCount threeWordText = 6
   \<and> analyzeRealSpeech (whisperTranscription threeWordSegments 3) ''software''
       = Inr (tooBriefResult 6)
   \<and> analyzeRealTranscription (whisperTranscription threeWordSegments 3) ''software''
       = tooBriefResult_server 6
   \<and> rating (tooBriefResult 6) = 2 \<and> rating (tooBriefResult_server 6) = 2
   \<and> tooBriefResult 6 \<noteq> noSpeechResult \<and> tooBriefResult_server 6 \<noteq> noSpeechResult_server"
proof -
  have h1: "transcript_text (whisperTranscription threeWordSegments 3) = Some threeWordText"
    by (rule threeWord_joined)
  have h2: "5 \<le> splitWordCount threeWordText" "splitWordCount threeWordText < 20"
    by (simp_all add: threeWord_counts)
  have "analyzeRealSpeech (whisperTranscription threeWordSegments 3) ''software''
          = Inr (tooBriefResult 6)"
    using analyzeRealSpeech_tooBrief [OF h1 h2, of "''software''"]
    by (simp add: threeWord_counts)
  moreover have "analyzeRealTranscription (whisperTranscription threeWordSegments 3) ''software''
          = tooBriefResult_server 6"
    using analyzeRealTranscription_tooBrief [OF h1 h2, of "''software''"]
    by (simp add: threeWord_counts)
  moreover have "rating (tooBriefResult 6) = 2" "rating (tooBriefResult_server 6) = 2"
    "tooBriefResult 6 \<noteq> noSpeechResult" "tooBriefResult_server 6 \<noteq> noSpeechResult_server"
    by (simp_all add: tooBriefResult_def tooBriefResult_server_def noSpeechResult_def
          noSpeechResult_server_def)
  ultimately show ?thesis
    using h1 by (simp add: threeWord_counts)
qed

section \<open>The result for a brief answer\<close>

lemma str_includes_subset: "str_includes s sub \<Longrightarrow> set sub \<subseteq> set s"
proof (induction s)
  case Nil
  then show ?case by simp
next
  case (Cons c cs)
  from Cons.prems have "take (length sub) (c # cs) = sub \<or> str_includes cs sub" by simp
  then show ?case
  proof
    assume "take (length sub) (c # cs) = sub"
    then have "set sub = set (take (length sub) (c # cs))" by simp
    also have "\<dots> \<subseteq> set (c # cs)" by (rule set_take_subset)
    finally show ?thesis .
  next
    assume "str_includes cs sub"
    with Cons.IH show ?thesis by auto
  qed
qed

lemma digitChar_digit: "isDigit (digitChar d)"
proof -
  have "d mod 10 < 10" by simp
  then have "d mod 10 = 0 \<or> d mod 10 = 1 \<or> d mod 10 = 2 \<or> d mod 10 = 3 \<or> d mod 10 = 4
      \<or> d mod 10 = 5 \<or> d mod 10 = 6 \<or> d mod 10 = 7 \<or> d mod 10 = 8 \<or> d mod 10 = 9"
    by arith
  then show ?thesis
    unfolding digitChar_def by (elim disjE) (simp_all add: isDigit_def inRange_def)
qed

lemma natToString_last: "\<exists>ds. natToString n = ds @ [digitChar n]"
proof (cases "n < 10")
  case True
  then show ?thesis by (simp add: natToString.simps [of n])
next
  case False
  have "digitChar (n mod 10) = digitChar n" by (simp add: digitChar_def)
  with False show ?thesis by (simp add: natToString.simps [of n])
qed

lemma no_digit_no_number:
  assumes "list_all (\<lambda>c. \<not> isDigit c) s"
  shows "\<not> str_includes s (natToString n)"
proof
  assume "str_includes s (natToString n)"
  then have "set (natToString n) \<subseteq> set s" by (rule str_includes_subset)
  moreover obtain ds where "natToString n = ds @ [digitChar n]"
    using natToString_last by blast
  ultimately have "digitChar n \<in> set s" by auto
  with assms have "\<not> isDigit (digitChar n)" by (simp add: list_all_iff)
  then show False by (simp add: digitChar_digit)
qed

lemma noEmptyPieces_count:
  assumes "noEmptyPieces text"
  shows "splitWordCount text = filteredWordCount text"
proof -
  have "list_all (\<lambda>w. length w > 0) (split text CHR '' '')"
    using assms by (simp add: noEmptyPieces_def)
  then have "filter (\<lambda>w. length w > 0) (split text CHR '' '') = split text CHR '' ''"
    by (simp add: list_all_iff)
  then show ?thesis by (simp add: splitWordCount_def filteredWordCount_def)
qed

lemma tooBrief_mistake_no_digit:
  "list_all (\<lambda>c. \<not> isDigit c) (mistake_text (hd (mistakes (tooBriefResult n))))"
  "list_all (\<lambda>c. \<not> isDigit c) (mistake_text (hd (mistakes (tooBriefResult_server n))))"
  by (simp_all add: tooBriefResult_def tooBriefResult_server_def isDigit_def inRange_def)

text \<open>
  Claim C3 says that for a word count from 5 to 19 the text of the one mistake contains
  the word count. It does not: for the answer of 9 words the mistake neither of
  \<^verbatim>\<open>analyzeRealSpeech\<close> nor of \<^verbatim>\<open>analyzeRealTranscription\<close> contains \<^verbatim>\<open>9\<close>.
\<close>

theorem too_brief_mistake_counterexample:
  "transcript_text briefTranscript = Some briefText \<and> filteredWordCount briefText = 9
   \<and> splitWordCount briefText = 9
   \<and> analyzeRealSpeech briefTranscript ''software'' = Inr (tooBriefResult 9)
   \<and> \<not> str_includes (mistake_text (hd (mistakes (tooBriefResult 9)))) (natToString 9)
   \<and> \<not> str_includes (mistake_text (hd (mistakes (analyzeRealTranscription briefTranscript ''software''))))
           (natToString 9)"
proof -
  have h1: "transcript_text briefTranscript = Some briefText"
    by (simp add: briefTranscript_def)
  have h2: "splitWordCount briefText = 9"
    by (simp add: splitWordCount_def split_def briefText_def)
  have h2': "filteredWordCount briefText = 9"
    by (simp add: filteredWordCount_def split_def briefText_def)
  have h3: "natToString 9 = ''9''"
    by (simp add: natToString.simps digitChar_def)
  have h4: "\<not> str_includes (mistake_text (hd (mistakes (tooBriefResult 9)))) ''9''"
    by (simp add: tooBriefResult_def)
  have h5: "\<not> str_includes (mistake_text (hd (mistakes (tooBriefResult_server 9)))) ''9''"
    by (simp add: tooBriefResult_server_def)
  have "analyzeRealSpeech briefTranscript ''software'' = Inr (tooBriefResult 9)"
    using analyzeRealSpeech_tooBrief [OF h1, of "''software''"] h2 by simp
  moreover have "analyzeRealTranscription briefTranscript ''software'' = tooBriefResult_server 9"
    using analyzeRealTranscription_tooBrief [OF h1, of "''software''"] h2 by simp
  ultimately show ?thesis
    using h1 h2 h2' h3 h4 h5 by simp
qed

text \<open>
  Claim C3, amended. For every transcript whose text is present and has no empty piece
  between spaces (no leading, trailing or doubled space), and whose word count, the number
  of its space-delimited tokens, is from 5 to 19: \<^verbatim>\<open>analyzeRealSpeech\<close> and
  \<^verbatim>\<open>analyzeRealTranscription\<close> return their result for a brief answer at that word count.
  That result has rating 2, one mistake and four tips that depend neither on the word
  count nor on the field, a mistake text that contains no number at all, and a summary
  that contains the word count.
\<close>

theorem too_brief_result:
  assumes "transcript_text t = Some text" and "noEmptyPieces text"
    and "5 \<le> filteredWordCount text" and "filteredWordCount text < 20"
  shows "analyzeRealSpeech t field = Inr (tooBriefResult (filteredWordCount text))
       \<and> analyzeRealTranscription t field = tooBriefResult_server (filteredWordCount text)
       \<and> rating (tooBriefResult n) = 2 \<and> rating (tooBriefResult_server n) = 2
       \<and> length (mistakes (tooBriefResult n)) = 1 \<and> length (mistakes (tooBriefResult_server n)) = 1
       \<and> mistakes (tooBriefResult n) = mistakes (tooBriefResult 0)
       \<and> mistakes (tooBriefResult_server n) = mistakes (tooBriefResult_server 0)
       \<and> \<not> str_includes (mistake_text (hd (mistakes (tooBriefResult n)))) (natToString m)
       \<and> \<not> str_includes (mistake_text (hd (mistakes (tooBriefResult_server n)))) (natToString m)
       \<and> length (tips (tooBriefResult n)) = 4 \<and> length (tips (tooBriefResult_server n)) = 4
       \<and> tips (tooBriefResult n) = tips (tooBriefResult 0)
       \<and> tips (tooBriefResult_server n) = tips (tooBriefResult_server 0)
       \<and> str_includes (summary (tooBriefResult n)) (natToString n)
       \<and> str_includes (summary (tooBriefResult_server n)) (natToString n)"
proof -
  have wc: "5 \<le> splitWordCount text" "splitWordCount text < 20"
    using assms(3,4) by (simp_all add: noEmptyPieces_count [OF assms(2)])
  have a: "analyzeRealSpeech t field = Inr (tooBriefResult (filteredWordCount text))"
    using analyzeRealSpeech_tooBrief [OF assms(1) wc]
    by (simp add: noEmptyPieces_count [OF assms(2)])
  have b: "analyzeRealTranscription t field = tooBriefResult_server (filteredWordCount text)"
    using analyzeRealTranscription_tooBrief [OF assms(1) wc]
    by (simp add: noEmptyPieces_count [OF assms(2)])
  have c: "\<not> str_includes (mistake_text (hd (mistakes (tooBriefResult n)))) (natToString m)"
    "\<not> str_includes (mistake_text (hd (mistakes (tooBriefResult_server n)))) (natToString m)"
    by (rule no_digit_no_number, rule tooBrief_mistake_no_digit)+
  have d: "str_includes (summary (tooBriefResult n)) (natToString n)"
    unfolding tooBriefResult_def analysis.simps by (rule str_includes_middle)
  have e: "str_includes (summary (tooBriefResult_server n)) (natToString n)"
    unfolding tooBriefResult_server_def analysis.simps by (rule str_includes_middle)
  have f: "rating (tooBriefResult n) = 2" "rating (tooBriefResult_server n) = 2"
    "length (mistakes (tooBriefResult n)) = 1" "length (mistakes (tooBriefResult_server n)) = 1"
    "mistakes (tooBriefResult n) = mistakes (tooBriefResult 0)"
    "mistakes (tooBriefResult_server n) = mistakes (tooBriefResult_server 0)"
    "length (tips (tooBriefResult n)) = 4" "length (tips (tooBriefResult_server n)) = 4"
    "tips (tooBriefResult n) = tips (tooBriefResult 0)"
    "tips (tooBriefResult_server n) = tips (tooBriefResult_server 0)"
    by (simp_all add: tooBriefResult_def tooBriefResult_server_def)
  note facts = a b c d e f
  show ?thesis
    by (intro conjI; rule facts)
qed

theorem too_brief_result_witness:
  "transcript_text briefTranscript = Some briefText \<and> noEmptyPieces briefText
   \<and> 5 \<le> filteredWordCount briefText \<and> filteredWordCount briefText < 20
   \<and> analyzeRealSpeech briefTranscript ''software'' = Inr (tooBriefResult (filteredWordCount briefText))
   \<and> analyzeRealTranscription briefTranscript ''software''
       = tooBriefResult_server (filteredWordCount briefText)
   \<and> \<not> str_includes (mistake_text (hd (mistakes (tooBriefResult 9)))) (natToString 9)
   \<and> str_includes (summary (tooBriefResult 9)) (natToString 9)"
proof -
  have h1: "transcript_text briefTranscript = Some briefText"
    by (simp add: briefTranscript_def)
  have h2: "noEmptyPieces briefText"
    by (simp add: noEmptyPieces_def split_def briefText_def)
  have h3: "5 \<le> filteredWordCount briefText"
    by (simp add: filteredWordCount_def split_def briefText_def)
  have h4: "filteredWordCount briefText < 20"
    by (simp add: filteredWordCount_def split_def briefText_def)
  from too_brief_result [OF h1 h2 h3 h4, of "''software''" 9 9] h1 h2 h3 h4 show ?thesis
    by blast
qed

lemma addIf_mono: "r \<le> r' \<Longrightarrow> (c \<Longrightarrow> c') \<Longrightarrow> 0 \<le> d \<Longrightarrow> addIf c d r \<le> addIf c' d r'"
  by (auto simp: addIf_def)

lemma scoreSum_mono:
  assumes "a \<le> b"
  shows "scoreSum wc a cw fw sm qw field text \<le> scoreSum wc b cw fw sm qw field text"
  unfolding scoreSum_def using assms by (intro addIf_mono) simp_all

lemma clamp_mono: "x \<le> y \<Longrightarrow> min 9 (max 1 x) \<le> min 9 (max 1 y)" for x y :: real
  by (simp add: min_def max_def)

lemma clamped_ge_4: "4 \<le> min 9 (max 1 (scoreSum wc tt cw fw sm qw field text))"
  using scoreSum_ge_4 [of wc tt cw fw sm qw field "text"] by simp

section \<open>The sizes of the lists\<close>

text \<open>
  Claim C5. Whatever the transcript and the field, a result returned by
  \<^verbatim>\<open>analyzeRealSpeech\<close> or by \<^verbatim>\<open>analyzeRealTranscription\<close> has at most three mistakes
  and at most five tips; this covers the two short branches.
\<close>

theorem result_sizes_bounded:
  assumes "analyzeRealSpeech t field = Inr r"
  shows "length (mistakes r) \<le> 3 \<and> length (tips r) \<le> 5
       \<and> length (mistakes (analyzeRealTranscription t field)) \<le> 3
       \<and> length (tips (analyzeRealTranscription t field)) \<le> 5"
proof -
  have "length (mistakes r) \<le> 3 \<and> length (tips r) \<le> 5"
    using assms
    by (auto simp: analyzeRealSpeech_def noSpeechResult_def tooBriefResult_def Let_def
          split: option.splits if_splits sum.splits)
  moreover have "length (mistakes (analyzeRealTranscription t field)) \<le> 3
       \<and> length (tips (analyzeRealTranscription t field)) \<le> 5"
    by (simp add: analyzeRealTranscription_def noSpeechResult_server_def
          tooBriefResult_server_def Let_def)
  ultimately show ?thesis by simp
qed

theorem result_sizes_bounded_witness:
  "analyzeRealSpeech emptyTranscript ''java'' = Inr noSpeechResult
   \<and> length (mistakes noSpeechResult) \<le> 3 \<and> length (tips noSpeechResult) \<le> 5
   \<and> length (mistakes (analyzeRealTranscription emptyTranscript ''java'')) \<le> 3
   \<and> length (tips (analyzeRealTranscription emptyTranscript ''java'')) \<le> 5"
proof -
  have "transcript_text emptyTranscript = Some []"
    by (simp add: emptyTranscript_def)
  moreover have "splitWordCount [] < 5"
    by (simp add: splitWordCount_def split_def)
  ultimately have h: "analyzeRealSpeech emptyTranscript ''java'' = Inr noSpeechResult"
    by (rule analyzeRealSpeech_noSpeech)
  from result_sizes_bounded [OF h] h show ?thesis
    by blast
qed

section \<open>Totality\<close>

text \<open>
  Claim C6. For every transcript whose text is a string (possibly empty), whatever its
  segments, and for every field, \<^verbatim>\<open>analyzeRealSpeech\<close> returns a result and does not
  throw. \<^verbatim>\<open>analyzeRealTranscription\<close> guards every read and has no throwing path.
\<close>

theorem analyze_total:
  assumes "transcript_text t = Some text"
  shows "\<exists>r. analyzeRealSpeech t field = Inr r"
proof -
  consider "splitWordCount text < 5"
    | "5 \<le> splitWordCount text" "splitWordCount text < 20"
    | "20 \<le> splitWordCount text"
    by linarith
  then show ?thesis
  proof cases
    case 1
    then show ?thesis using analyzeRealSpeech_noSpeech [OF assms] by blast
  next
    case 2
    then show ?thesis using analyzeRealSpeech_tooBrief [OF assms] by blast
  next
    case 3
    then show ?thesis using analyzeRealSpeech_general [OF assms] by blast
  qed
qed

theorem analyze_total_witness:
  "transcript_text fillerTranscript = Some fillerText
   \<and> (\<exists>r. analyzeRealSpeech fillerTranscript ''software'' = Inr r)"
proof -
  have h: "transcript_text fillerTranscript = Some fillerText"
    by (simp add: fillerTranscript_def)
  from analyze_total [OF h, of "''software''"] h show ?thesis
    by blast
qed

section \<open>Monotonicity in the technical terms\<close>

text \<open>
  Claim C8. With the field, the text and every other count fixed, a larger number of
  technical terms never gives a smaller rating; in particular the rating for three
  technical terms is at least the rating for none.
\<close>

theorem rating_monotone_in_technical_terms:
  assumes "a \<le> b"
  shows "computeRating wc a cw fw sm qw field text \<le> computeRating wc b cw fw sm qw field text
       \<and> computeRating_server wc a cw fw sm qw field text
           \<le> computeRating_server wc b cw fw sm qw field text"
  unfolding computeRating_closed computeRating_server_closed
  using clamp_mono [OF scoreSum_mono [OF assms]] by simp

theorem rating_monotone_in_technical_terms_witness:
  "(0 :: nat) \<le> 3
   \<and> computeRating 60 0 5 0 1 0 ''java'' plainText \<le> computeRating 60 3 5 0 1 0 ''java'' plainText
   \<and> computeRating_server 60 0 5 0 1 0 ''java'' plainText
       \<le> computeRating_server 60 3 5 0 1 0 ''java'' plainText"
proof -
  have h: "(0 :: nat) \<le> 3" by simp
  from rating_monotone_in_technical_terms [OF h, of 60 5 0 1 0 "''java''" plainText] h
  show ?thesis by blast
qed

section \<open>The lower bound of the general branch\<close>

text \<open>
  Claim C10. For every transcript whose text is present and has a \<^verbatim>\<open>wordCount\<close> of at
  least 20, and for every field, the rating is at least 4.
\<close>

theorem general_rating_at_least_4:
  assumes "transcript_text t = Some text" and "20 \<le> splitWordCount text"
  shows "(\<exists>r. analyzeRealSpeech t field = Inr r \<and> 4 \<le> rating r)
       \<and> 4 \<le> rating (analyzeRealTranscription t field)"
  using analyzeRealSpeech_general [OF assms, of field]
  by (auto simp: analyzeRealTranscription_general [OF assms] computeRating_closed
        computeRating_server_closed scoreSum_ge_4 le_max_iff_disj)

theorem general_rating_at_least_4_witness:
  "transcript_text plainTranscript = Some plainText \<and> 20 \<le> splitWordCount plainText
   \<and> (\<exists>r. analyzeRealSpeech plainTranscript ''software'' = Inr r \<and> 4 \<le> rating r)
   \<and> 4 \<le> rating (analyzeRealTranscription plainTranscript ''software'')"
proof -
  have h1: "transcript_text plainTranscript = Some plainText"
    by (simp add: plainTranscript_def)
  have h2: "20 \<le> splitWordCount plainText"
    by (simp add: splitWordCount_def split_def plainText_def)
  from general_rating_at_least_4 [OF h1 h2, of "''software''"] h1 h2 show ?thesis
    by blast
qed

section \<open>The timestamp of the filler mistake\<close>

text \<open>
  Claim C7 says that a transcript of at least 20 words with more filler words than a
  fifteenth of the word count gets the filler mistake, with the timestamp of the midpoint
  segment. The text that server.js joins from the ten segments of \<open>tenSegments\<close> has 20
  words, two of them filler words, and 30 pieces: 2 is above 20/15 and not above 30/15, so
  \<^verbatim>\<open>analyzeRealSpeech\<close> and \<^verbatim>\<open>analyzeRealTranscription\<close> emit no filler mistake. Their
  only mistake is the one for a short answer, at \<^verbatim>\<open>0:30\<close>; the midpoint segment starts at
  5 seconds.
\<close>

theorem filler_mistake_of_joined_segments:
  "transcript_text (whisperTranscription tenSegments 10) = Some tenSegmentText
   \<and> filteredWordCount tenSegmentText = 20 \<and> spec_wordCount tenSegmentText = 20
   \<and> fillerWordCount tenSegmentText = 2
   \<and> real (fillerWordCount tenSegmentText) > real (filteredWordCount tenSegmentText) / 15
   \<and> splitWordCount tenSegmentText = 30
   \<and> (\<exists>r. analyzeRealSpeech (whisperTranscription tenSegments 10) ''software'' = Inr r
          \<and> mistakes r =
              [\<lparr>timestamp = ''0:30'',
                mistake_text = ''Provide more comprehensive responses with detailed examples and context''\<rparr>])
   \<and> mistakes (analyzeRealTranscription (whisperTranscription tenSegments 10) ''software'') =
        [\<lparr>timestamp = ''0:30'',
          mistake_text = ''Provide more comprehensive responses with detailed examples and context''\<rparr>]"
proof -
  have h1: "transcript_text (whisperTranscription tenSegments 10) = Some tenSegmentText"
    by (rule tenSegment_joined)
  have h2: "20 \<le> splitWordCount tenSegmentText"
    by (simp add: tenSegment_counts)
  have r1: "\<exists>r. analyzeRealSpeech (whisperTranscription tenSegments 10) ''software'' = Inr r
          \<and> mistakes r =
              [\<lparr>timestamp = ''0:30'',
                mistake_text = ''Provide more comprehensive responses with detailed examples and context''\<rparr>]"
    using analyzeRealSpeech_general [OF h1 h2, of "''software''"]
    unfolding tenSegment_counts tenSegment_technical tenSegment_confidence
      tenSegment_filler tenSegment_metrics collect_30
    by auto
  have r2: "mistakes (analyzeRealTranscription (whisperTranscription tenSegments 10) ''software'') =
        [\<lparr>timestamp = ''0:30'',
          mistake_text = ''Provide more comprehensive responses with detailed examples and context''\<rparr>]"
    unfolding analyzeRealTranscription_general [OF h1 h2] tenSegment_counts
      tenSegment_technical tenSegment_confidence tenSegment_filler tenSegment_metrics
      collect_server_30
    by simp
  show ?thesis
    using h1 r1 r2 by (simp add: tenSegment_counts tenSegment_filler)
qed

lemma splitWhen_splitFrom:
  assumes "list_all (\<lambda>c. p c = (c = sep)) s"
  shows "splitWhen p cur s = splitFrom sep cur s"
  using assms by (induction s arbitrary: cur) simp_all

lemma matchCount_Nil_words: "matchCount [] (wordsRegex ws) = 0"
  by (simp add: matchCount_def wordsRegex_def matchAt_def wordBoundary_def startsWithWordChar_def)

lemma matchCount_Nil_metrics: "matchCount [] specificMetricsRegex = 0"
  by (simp add: matchCount_def specificMetricsRegex_def matchAt_def wordBoundary_def
        startsWithWordChar_def)

lemma isSpace_space: "isSpace CHR '' ''"
  by (simp add: isSpace_def)

lemma plainText_lower: "map lowerChar plainText = plainText"
  by (simp add: plainText_def lowerChar_def inRange_def)

lemma plainText_technical: "technicalTermCount plainText = 0"
  unfolding technicalTermCount_def matchCount_def plainText_lower
  by (simp add: plainText_def technicalTermsRegex_def wordsRegex_def anyOf_def
        matchAt_def wordBoundary_def startsWithWordChar_def isWordChar_def inRange_def)

lemma plainText_confidence: "confidenceWordCount plainText = 0"
  unfolding confidenceWordCount_def matchCount_def plainText_lower
  by (simp add: plainText_def confidenceWordsRegex_def wordsRegex_def anyOf_def
        matchAt_def wordBoundary_def startsWithWordChar_def isWordChar_def inRange_def)

lemma plainText_filler: "fillerWordCount plainText = 0"
  unfolding fillerWordCount_def matchCount_def plainText_lower
  by (simp add: plainText_def fillerWordsRegex_def wordsRegex_def anyOf_def
        matchAt_def wordBoundary_def startsWithWordChar_def isWordChar_def inRange_def)

lemma plainText_metrics: "specificMetricCount plainText = 0"
  unfolding specificMetricCount_def matchCount_def plainText_lower
  by (simp add: plainText_def specificMetricsRegex_def metricUnits_def anyOf_def
        matchAt_def wordBoundary_def startsWithWordChar_def isWordChar_def isDigit_def
        isSpace_def inRange_def)

lemma plainText_question: "questionWordCount plainText = 0"
  unfolding questionWordCount_def matchCount_def plainText_lower
  by (simp add: plainText_def questionWordsRegex_def wordsRegex_def anyOf_def
        matchAt_def wordBoundary_def startsWithWordChar_def isWordChar_def inRange_def)

lemma plainText_technical3: "matchCount plainText technicalTermsRegex3 = 0"
  unfolding matchCount_def plainText_lower
  by (simp add: plainText_def technicalTermsRegex3_def wordsRegex_def anyOf_def
        matchAt_def wordBoundary_def startsWithWordChar_def isWordChar_def inRange_def)

lemma plainText_confidence3: "matchCount plainText confidenceWordsRegex3 = 0"
  unfolding matchCount_def plainText_lower
  by (simp add: plainText_def confidenceWordsRegex3_def wordsRegex_def anyOf_def
        matchAt_def wordBoundary_def startsWithWordChar_def isWordChar_def inRange_def)

lemma plainText_filler3: "matchCount plainText fillerWordsRegex3 = 0"
  unfolding matchCount_def plainText_lower
  by (simp add: plainText_def fillerWordsRegex3_def wordsRegex_def anyOf_def
        matchAt_def wordBoundary_def startsWithWordChar_def isWordChar_def inRange_def)

lemma plainText_words: "splitWordCount plainText = 21"
  by (simp add: splitWordCount_def split_def plainText_def)

lemma plainText_filteredWords: "filteredWordCount plainText = 21"
  by (simp add: filteredWordCount_def split_def plainText_def)

lemma analyzeTranscription_general:
  assumes "transcript_text t = Some text" and "20 \<le> filteredWordCount text"
  shows "rating (analyzeTranscription t field) =
           computeRating_simple (filteredWordCount text) (matchCount text technicalTermsRegex3)
             (matchCount text confidenceWordsRegex3) (matchCount text fillerWordsRegex3)"
proof -
  have "\<not> filteredWordCount text < 5" "\<not> filteredWordCount text < 20"
    using assms(2) by simp_all
  then show ?thesis
    using assms(1) by (simp add: analyzeTranscription_def filteredWordCount_def Let_def)
qed

lemma plain_simple_rating: "computeRating_simple 21 0 0 0 = 11 / 2"
  by (simp add: computeRating_simple_def Let_def mathRound_def)

lemma plain_scoreSum: "scoreSum 21 0 0 0 0 0 ''software'' plainText = 9 / 2"
  by (simp add: scoreSum_def addIf_def toLowerCase_def lowerChar_def inRange_def)


section \<open>The word count\<close>

text \<open>
  Claim C4 says that the word count splits the text on runs of white space and discards
  the empty tokens, so that the empty text has a word count of 0. The analysers split at
  the space character only, and two of the three keep the empty pieces: for the empty
  text \<^verbatim>\<open>text.split(' ').length\<close> is 1, and two words on two lines count as one word
  in every analyser.
\<close>

theorem word_count_counterexample:
  "spec_wordCount [] = 0 \<and> splitWordCount [] = 1
   \<and> spec_wordCount twoLineText = 2 \<and> splitWordCount twoLineText = 1
   \<and> filteredWordCount twoLineText = 1"
  by (simp add: spec_wordCount_def splitWordCount_def filteredWordCount_def split_def
        twoLineText_def isSpace_def inRange_def)

text \<open>
  Claim C4, amended. The word count splits the text at space characters only; other
  white space, such as a line feed, does not separate words. \<^verbatim>\<open>analyzeTranscription\<close>
  discards the empty pieces: on every text whose only white space is the space character
  its word count is the number of tokens between runs of white space, and it is 0 on the
  empty text. Every count of a vocabulary or of metrics is 0 on the empty text, and on
  the empty text each analyser returns its result for almost no speech and does not throw.
\<close>

theorem word_count_splits_at_spaces:
  assumes "onlySpaceAsWhiteSpace text"
  shows "filteredWordCount text = spec_wordCount text
       \<and> filteredWordCount [] = 0
       \<and> technicalTermCount [] = 0 \<and> confidenceWordCount [] = 0 \<and> fillerWordCount [] = 0
       \<and> specificMetricCount [] = 0 \<and> questionWordCount [] = 0
       \<and> matchCount [] technicalTermsRegex3 = 0 \<and> matchCount [] confidenceWordsRegex3 = 0
       \<and> matchCount [] fillerWordsRegex3 = 0
       \<and> analyzeRealSpeech \<lparr>transcript_text = Some [], segments = segs, duration = d\<rparr> field
           = Inr noSpeechResult
       \<and> analyzeRealTranscription \<lparr>transcript_text = Some [], segments = segs, duration = d\<rparr> field
           = noSpeechResult_server
       \<and> analyzeTranscription \<lparr>transcript_text = Some [], segments = segs, duration = d\<rparr> field
           = noSpeechResult_simple"
proof -
  have "splitWhen isSpace [] text = splitFrom CHR '' '' [] text"
    using assms unfolding onlySpaceAsWhiteSpace_def by (rule splitWhen_splitFrom)
  then have "filteredWordCount text = spec_wordCount text"
    by (simp add: filteredWordCount_def spec_wordCount_def split_def)
  moreover have "filteredWordCount [] = 0"
    by (simp add: filteredWordCount_def split_def)
  moreover have "technicalTermCount [] = 0" "confidenceWordCount [] = 0" "fillerWordCount [] = 0"
    "questionWordCount [] = 0" "matchCount [] technicalTermsRegex3 = 0"
    "matchCount [] confidenceWordsRegex3 = 0" "matchCount [] fillerWordsRegex3 = 0"
    by (simp_all add: technicalTermCount_def confidenceWordCount_def fillerWordCount_def
          questionWordCount_def technicalTermsRegex_def confidenceWordsRegex_def
          fillerWordsRegex_def questionWordsRegex_def technicalTermsRegex3_def
          confidenceWordsRegex3_def fillerWordsRegex3_def matchCount_Nil_words)
  moreover have "specificMetricCount [] = 0"
    by (simp add: specificMetricCount_def matchCount_Nil_metrics)
  moreover have "analyzeRealSpeech \<lparr>transcript_text = Some [], segments = segs, duration = d\<rparr> field
           = Inr noSpeechResult"
    by (simp add: analyzeRealSpeech_def split_def)
  moreover have "analyzeRealTranscription \<lparr>transcript_text = Some [], segments = segs, duration = d\<rparr> field
           = noSpeechResult_server"
    by (simp add: analyzeRealTranscription_def split_def)
  moreover have "analyzeTranscription \<lparr>transcript_text = Some [], segments = segs, duration = d\<rparr> field
           = noSpeechResult_simple"
    by (simp add: analyzeTranscription_def split_def)
  ultimately show ?thesis by simp
qed

theorem word_count_splits_at_spaces_witness:
  "onlySpaceAsWhiteSpace briefText
   \<and> filteredWordCount briefText = spec_wordCount briefText
   \<and> analyzeTranscription \<lparr>transcript_text = Some [], segments = None, duration = 0\<rparr> ''java''
       = noSpeechResult_simple"
proof -
  have h: "onlySpaceAsWhiteSpace briefText"
    by (simp add: onlySpaceAsWhiteSpace_def briefText_def isSpace_def inRange_def)
  from word_count_splits_at_spaces [OF h, of None 0 "''java''"] h show ?thesis
    by blast
qed

section \<open>The copies of the scorer\<close>

text \<open>
  Claim C9 says that the three copies of the scorer return equal ratings. They do not:
  for the answer of 21 words with no word of any vocabulary, \<^verbatim>\<open>analyzeRealSpeech\<close> and
  \<^verbatim>\<open>analyzeRealTranscription\<close> rate 4.5, from the base 4, and \<^verbatim>\<open>analyzeTranscription\<close> rates
  5.5, from its base 5.
\<close>

theorem scorer_copies_counterexample:
  "map_sum id rating (analyzeRealSpeech plainTranscript ''software'') = Inr (9 / 2)
   \<and> rating (analyzeRealTranscription plainTranscript ''software'') = 9 / 2
   \<and> rating (analyzeTranscription plainTranscript ''software'') = 11 / 2"
proof -
  have h1: "transcript_text plainTranscript = Some plainText"
    by (simp add: plainTranscript_def)
  have h2: "20 \<le> splitWordCount plainText"
    by (simp add: plainText_words)
  have h3: "20 \<le> filteredWordCount plainText"
    by (simp add: plainText_filteredWords)
  have "rating (analyzeTranscription plainTranscript ''software'') = 11 / 2"
    by (simp add: analyzeTranscription_general [OF h1 h3] plainText_filteredWords
          plainText_technical3 plainText_confidence3 plainText_filler3 plain_simple_rating)
  moreover have "rating (analyzeRealTranscription plainTranscript ''software'') = 9 / 2"
    by (simp add: analyzeRealTranscription_general [OF h1 h2] computeRating_server_closed
          plainText_words plainText_technical plainText_confidence plainText_filler
          plainText_metrics plainText_question plain_scoreSum)
  moreover have "map_sum id rating (analyzeRealSpeech plainTranscript ''software'') = Inr (9 / 2)"
    using analyzeRealSpeech_general [OF h1 h2, of "''software''"]
    by (auto simp: computeRating_closed
          plainText_words plainText_technical plainText_confidence plainText_filler
          plainText_metrics plainText_question plain_scoreSum)
  ultimately show ?thesis by simp
qed

text \<open>
  Claim C9, amended. The scorer of \<^verbatim>\<open>analyzeRealSpeech\<close> in api/analyze.js and the scorer
  of \<^verbatim>\<open>analyzeRealTranscription\<close> in server.js return equal ratings for every transcript
  whose text is present and for every field; \<^verbatim>\<open>analyzeTranscription\<close> in server.js is a
  different rule.
\<close>

theorem real_scorers_agree:
  assumes "transcript_text t = Some text"
  shows "\<exists>r. analyzeRealSpeech t field = Inr r
           \<and> rating r = rating (analyzeRealTranscription t field)"
proof -
  consider "splitWordCount text < 5"
    | "5 \<le> splitWordCount text" "splitWordCount text < 20"
    | "20 \<le> splitWordCount text"
    by linarith
  then show ?thesis
  proof cases
    case 1
    then show ?thesis
      by (simp add: analyzeRealSpeech_noSpeech [OF assms] analyzeRealTranscription_noSpeech [OF assms]
            noSpeechResult_def noSpeechResult_server_def)
  next
    case 2
    then show ?thesis
      by (simp add: analyzeRealSpeech_tooBrief [OF assms] analyzeRealTranscription_tooBrief [OF assms]
            tooBriefResult_def tooBriefResult_server_def)
  next
    case 3
    then show ?thesis
      using analyzeRealSpeech_general [OF assms, of field]
      by (auto simp: analyzeRealTranscription_general [OF assms] computeRating_closed
            computeRating_server_closed)
  qed
qed

theorem real_scorers_agree_witness:
  "transcript_text fillerTranscript = Some fillerText
   \<and> (\<exists>r. analyzeRealSpeech fillerTranscript ''senior java'' = Inr r
          \<and> rating r = rating (analyzeRealTranscription fillerTranscript ''senior java''))"
proof -
  have h: "transcript_text fillerTranscript = Some fillerText"
    by (simp add: fillerTranscript_def)
  from real_scorers_agree [OF h, of "''senior java''"] h show ?thesis
    by blast
qed

end
